theory Spec2Isabelle
  imports Complex_Main
begin

section \<open>JavaScript numbers\<close>

text \<open>
  A JavaScript number is an IEEE 754 binary64 value: a finite value (\<open>Num\<close> of its exact
  real value; \<open>Num 0\<close> is \<open>+0\<close>), negative zero, an infinity, or \<open>NaN\<close>. The result of
  an arithmetic operation is the exact result rounded to the nearest double, ties to the
  even significand: in the binade \<open>2^e \<le> |x| < 2^(e+1)\<close> (with \<open>e\<close> at least -1022, below
  which the doubles are subnormal) the doubles are the multiples of \<open>2^(e-52)\<close>, and a
  rounded magnitude of \<open>2^1024\<close> or more overflows to an infinity. The type does not
  restrict \<open>Num\<close> to the reals that are doubles: every operation rounds its result, and
  what holds for all arguments holds for all doubles.
\<close>

datatype number = Num real | NegZero | PosInf | NegInf | NaN

definition pow2 :: "int \<Rightarrow> real" where
  "pow2 k = (if 0 \<le> k then 2 ^ nat k else 1 / 2 ^ nat (- k))"

definition round_even :: "real \<Rightarrow> int" where
  "round_even z =
     (let f = \<lfloor>z\<rfloor>; r = z - of_int f
      in if r < 1 / 2 then f else if 1 / 2 < r then f + 1 else if even f then f else f + 1)"

text \<open>
  The exponent \<open>e\<close> with \<open>2^e \<le> x < 2^(e+1)\<close> of a positive \<open>x\<close>, found by halving or
  doubling \<open>x\<close> into \<open>[1, 2)\<close>; the binade of \<open>x\<close> is that exponent of \<open>|x|\<close>, at least -1022.
\<close>

function floor_log2 :: "real \<Rightarrow> int" where
  "floor_log2 x =
     (if x \<le> 0 then 0
      else if 2 \<le> x then floor_log2 (x / 2) + 1
      else if x < 1 then floor_log2 (x * 2) - 1
      else 0)"
  by pat_completeness auto

termination
proof (relation "measure (\<lambda>x. nat \<bar>\<lfloor>log 2 x\<rfloor>\<bar>)")
  show "wf (measure (\<lambda>x. nat \<bar>\<lfloor>log 2 x\<rfloor>\<bar>))" by simp
next
  fix x :: real
  assume "\<not> x \<le> 0" "2 \<le> x"
  then have "log 2 (x / 2) = log 2 x - 1" "1 \<le> log 2 x"
    by (simp_all add: log_divide)
  then have "\<lfloor>log 2 (x / 2)\<rfloor> = \<lfloor>log 2 x\<rfloor> - 1" "1 \<le> \<lfloor>log 2 x\<rfloor>"
    by (simp_all add: le_floor_iff)
  then show "(x / 2, x) \<in> measure (\<lambda>x. nat \<bar>\<lfloor>log 2 x\<rfloor>\<bar>)" by simp
next
  fix x :: real
  assume x: "\<not> x \<le> 0" "\<not> 2 \<le> x" "x < 1"
  then have "log 2 (x * 2) = log 2 x + 1" "log 2 x < 0"
    by (simp_all add: log_mult)
  then have "\<lfloor>log 2 (x * 2)\<rfloor> = \<lfloor>log 2 x\<rfloor> + 1" "\<lfloor>log 2 x\<rfloor> \<le> - 1"
    by (simp_all add: floor_le_iff)
  then show "(x * 2, x) \<in> measure (\<lambda>x. nat \<bar>\<lfloor>log 2 x\<rfloor>\<bar>)" by simp
qed

declare floor_log2.simps [simp del]

definition binade :: "real \<Rightarrow> int" where
  "binade x = max (floor_log2 \<bar>x\<bar>) (- 1022)"

definition overflow_threshold :: real where
  "overflow_threshold = 2 ^ 1024"

definition round_to_double :: "real \<Rightarrow> number" where
  "round_to_double x =
     (if x = 0 then Num 0
      else
        let q = pow2 (binade x - 52);
            y = of_int (round_even (x / q)) * q
        in if overflow_threshold \<le> \<bar>y\<bar> then (if x < 0 then NegInf else PosInf)
           else if y = 0 then (if x < 0 then NegZero else Num 0)
           else Num y)"

text \<open>Sign bit, finiteness and real value of a number; zeros and infinities by sign.\<close>

fun is_neg :: "number \<Rightarrow> bool" where
  "is_neg (Num a) = (a < 0)"
| "is_neg NegZero = True"
| "is_neg PosInf = False"
| "is_neg NegInf = True"
| "is_neg NaN = False"

fun is_finite :: "number \<Rightarrow> bool" where
  "is_finite (Num a) = True"
| "is_finite NegZero = True"
| "is_finite _ = False"

fun real_of :: "number \<Rightarrow> real" where
  "real_of (Num a) = a"
| "real_of _ = 0"

definition signed_zero :: "bool \<Rightarrow> number" where
  "signed_zero negative = (if negative then NegZero else Num 0)"

definition signed_inf :: "bool \<Rightarrow> number" where
  "signed_inf negative = (if negative then NegInf else PosInf)"

fun num_abs :: "number \<Rightarrow> number" where
  "num_abs (Num a) = Num \<bar>a\<bar>"
| "num_abs NegZero = Num 0"
| "num_abs PosInf = PosInf"
| "num_abs NegInf = PosInf"
| "num_abs NaN = NaN"

text \<open>
  \<open>x - y\<close>. An exact difference of zero is \<open>+0\<close>, except \<open>(-0) - (+0)\<close>, which is \<open>-0\<close>.
\<close>

definition num_sub :: "number \<Rightarrow> number \<Rightarrow> number" where
  "num_sub x y =
     (if x = NaN \<or> y = NaN then NaN
      else if is_finite x \<and> is_finite y then
        (if real_of x - real_of y = 0
         then signed_zero (x = NegZero \<and> y \<noteq> NegZero)
         else round_to_double (real_of x - real_of y))
      else if is_finite y then x
      else if is_finite x then signed_inf (\<not> is_neg y)
      else if x = y then NaN
      else x)"

text \<open>\<open>x * y\<close>: the sign is the exclusive or of the signs; \<open>0 * Infinity\<close> is \<open>NaN\<close>.\<close>

definition num_mul :: "number \<Rightarrow> number \<Rightarrow> number" where
  "num_mul x y =
     (if x = NaN \<or> y = NaN then NaN
      else if is_finite x \<and> is_finite y then
        (if real_of x * real_of y = 0
         then signed_zero (is_neg x \<noteq> is_neg y)
         else round_to_double (real_of x * real_of y))
      else if (is_finite x \<and> real_of x = 0) \<or> (is_finite y \<and> real_of y = 0) then NaN
      else signed_inf (is_neg x \<noteq> is_neg y))"

text \<open>
  \<open>x / y\<close>: a nonzero number over a zero is an infinity, with the sign of the zero taken
  into account; \<open>0 / 0\<close> and \<open>Infinity / Infinity\<close> are \<open>NaN\<close>.
\<close>

definition num_div :: "number \<Rightarrow> number \<Rightarrow> number" where
  "num_div x y =
     (if x = NaN \<or> y = NaN then NaN
      else if is_finite x \<and> is_finite y then
        (if real_of y = 0
         then (if real_of x = 0 then NaN else signed_inf (is_neg x \<noteq> is_neg y))
         else if real_of x = 0 then signed_zero (is_neg x \<noteq> is_neg y)
         else round_to_double (real_of x / real_of y))
      else if is_finite y then signed_inf (is_neg x \<noteq> is_neg y)
      else if is_finite x then signed_zero (is_neg x \<noteq> is_neg y)
      else NaN)"

text \<open>Comparisons: false whenever an operand is \<open>NaN\<close>; the two zeros are equal.\<close>

definition num_lt :: "number \<Rightarrow> number \<Rightarrow> bool" where
  "num_lt x y =
     (if x = NaN \<or> y = NaN then False
      else if is_finite x \<and> is_finite y then real_of x < real_of y
      else if is_finite y then x = NegInf
      else if is_finite x then y = PosInf
      else x = NegInf \<and> y = PosInf)"

definition num_eq :: "number \<Rightarrow> number \<Rightarrow> bool" where
  "num_eq x y =
     (if x = NaN \<or> y = NaN then False
      else if is_finite x \<and> is_finite y then real_of x = real_of y
      else x = y)"

definition num_gt :: "number \<Rightarrow> number \<Rightarrow> bool" where
  "num_gt a b = num_lt b a"

definition num_le :: "number \<Rightarrow> number \<Rightarrow> bool" where
  "num_le a b = (num_lt a b \<or> num_eq a b)"

definition num_ge :: "number \<Rightarrow> number \<Rightarrow> bool" where
  "num_ge a b = num_le b a"

section \<open>Data model (types.ts)\<close>

record LPPosition =
  liquidityAmount :: int
  token0Amount :: int
  token1Amount :: int
  token0Address :: string
  token1Address :: string
  token0Symbol :: string
  token1Symbol :: string
  token0Decimals :: number
  token1Decimals :: number
  token0Exposure :: number
  token1Exposure :: number
  totalValueUSD :: number

datatype PositionSide = LONG | SHORT

text \<open>Field \<open>size\<close> of the source is \<open>psize\<close> here (\<open>size\<close> is a constant of HOL).\<close>

record HyperliquidPosition =
  coin :: string
  entryPrice :: number
  psize :: number
  side :: PositionSide
  leverage :: number
  marginUsd :: number
  markPrice :: number
  unrealizedPnl :: number
  liquidationPrice :: number

datatype HedgingAction = INCREASE_SHORT | DECREASE_SHORT | NO_ACTION | CLOSE_POSITIONS

record HedgeDecision =
  action :: HedgingAction
  sizeChange :: number

section \<open>Hedge decision engine (utils/calculations.ts)\<close>

definition calculateRequiredHedgeSize :: "LPPosition \<Rightarrow> number" where
  "calculateRequiredHedgeSize lpPosition = token0Exposure lpPosition"

text \<open>
  \<open>x.toFixed(2)\<close> works on the exact value of the double: it splits off the sign and
  prints the decimal \<open>n / 100\<close> nearest to the magnitude (of two nearest, the larger
  \<open>n\<close>); \<open>parseFloat\<close> reads that decimal as the nearest double, \<open>-0.00\<close> as negative zero.
  \<open>Infinity\<close> and \<open>NaN\<close> print as their names and are read back as themselves; negative zero
  prints as \<open>0.00\<close>. (From \<open>10^21\<close> on \<open>toFixed\<close> prints the shortest decimal that reads back
  as the same double; a double of that size is an integer, so that the nearest
  hundredth and the double read from it are the number itself.)
\<close>

definition hundredths :: "real \<Rightarrow> int" where
  "hundredths a = \<lfloor>\<bar>a\<bar> * 100 + 1 / 2\<rfloor>"

fun parseFloat_toFixed2 :: "number \<Rightarrow> number" where
  "parseFloat_toFixed2 (Num a) =
     (if hundredths a = 0 then signed_zero (a < 0)
      else if a < 0 then round_to_double (- (of_int (hundredths a) / 100))
      else round_to_double (of_int (hundredths a) / 100))"
| "parseFloat_toFixed2 NegZero = Num 0"
| "parseFloat_toFixed2 PosInf = PosInf"
| "parseFloat_toFixed2 NegInf = NegInf"
| "parseFloat_toFixed2 NaN = NaN"

text \<open>The literals \<open>0.000001\<close> and \<open>100\<close> of the source denote the nearest doubles.\<close>

definition calculateDeviation :: "number \<Rightarrow> number \<Rightarrow> number" where
  "calculateDeviation lpPendleExposure hedgeSize =
     (if num_eq hedgeSize (Num 0) \<or>
         num_lt (num_abs hedgeSize) (round_to_double (1 / 1000000))
      then (if num_gt lpPendleExposure (Num 0) then Num 100 else Num 0)
      else
        let deviation =
              num_mul (num_div (num_abs (num_sub lpPendleExposure hedgeSize)) hedgeSize) (Num 100)
        in parseFloat_toFixed2 deviation)"

text \<open>
  The first parameter is optional here because the source tests \<open>!lpPosition\<close> before it
  reads the position. The price parameter is unused in the source too.
\<close>

definition determineHedgeAction ::
  "LPPosition option \<Rightarrow> HyperliquidPosition option \<Rightarrow> number \<Rightarrow> number \<Rightarrow> HedgeDecision" where
  "determineHedgeAction lpPosition hedgePosition rebalanceThreshold pendlePrice =
     (let closeAll =
            \<lparr>action = CLOSE_POSITIONS,
             sizeChange = (case hedgePosition of Some hp \<Rightarrow> num_abs (psize hp) | None \<Rightarrow> Num 0)\<rparr>;
          noAction = \<lparr>action = NO_ACTION, sizeChange = Num 0\<rparr>
      in case lpPosition of
        None \<Rightarrow> closeAll
      | Some lp \<Rightarrow>
          if num_eq (totalValueUSD lp) (Num 0) then closeAll
          else
            let requiredHedgeSize = calculateRequiredHedgeSize lp in
            if hedgePosition = None \<and> num_gt requiredHedgeSize (Num 0)
            then \<lparr>action = INCREASE_SHORT, sizeChange = requiredHedgeSize\<rparr>
            else
              (case hedgePosition of
                Some hp \<Rightarrow>
                  let currentHedgeSize = num_abs (psize hp);
                      deviation =
                        num_div (num_abs (num_sub requiredHedgeSize currentHedgeSize))
                          requiredHedgeSize
                  in
                    if num_gt deviation rebalanceThreshold then
                      (if num_gt requiredHedgeSize currentHedgeSize
                       then \<lparr>action = INCREASE_SHORT,
                             sizeChange = num_sub requiredHedgeSize currentHedgeSize\<rparr>
                       else \<lparr>action = DECREASE_SHORT,
                             sizeChange = num_sub currentHedgeSize requiredHedgeSize\<rparr>)
                    else noAction
              | None \<Rightarrow> noAction))"

definition isFundingRateAcceptable :: "number \<Rightarrow> number \<Rightarrow> bool" where
  "isFundingRateAcceptable fundingRate fundingTolerance =
     num_le (num_abs fundingRate) fundingTolerance"


section \<open>Exceptions and dynamic values\<close>

text \<open>
  A thrown JavaScript value is modelled by the two things the code inspects: whether it is
  an instance of \<open>TypeError\<close> (what \<open>fetch\<close> rejects with on a connection failure), and
  its \<open>message\<close>. A computation that may throw returns \<open>js_error + 'a\<close>, \<open>Inl\<close> being
  the exception.
\<close>

datatype js_error = JsError (instanceofTypeError: bool) (message: string)

definition try_catch :: "js_error + 'a \<Rightarrow> (js_error \<Rightarrow> js_error + 'a) \<Rightarrow> js_error + 'a" where
  "try_catch body handler = (case body of Inl e \<Rightarrow> handler e | Inr v \<Rightarrow> Inr v)"

fun starts_with :: "string \<Rightarrow> string \<Rightarrow> bool" where
  "starts_with s [] = True"
| "starts_with [] (c # cs) = False"
| "starts_with (d # ds) (c # cs) = (d = c \<and> starts_with ds cs)"

text \<open>\<open>str_includes s sub\<close> is \<open>s.includes(sub)\<close>.\<close>

fun str_includes :: "string \<Rightarrow> string \<Rightarrow> bool" where
  "str_includes [] sub = (sub = [])"
| "str_includes (c # cs) sub = (starts_with (c # cs) sub \<or> str_includes cs sub)"

text \<open>Decimal rendering of a status code, as a template literal prints it.\<close>

function string_of_nat :: "nat \<Rightarrow> string" where
  "string_of_nat n =
     (if n < 10 then [''0123456789'' ! n]
      else string_of_nat (n div 10) @ [''0123456789'' ! (n mod 10)])"
  by pat_completeness auto
termination
  by (relation "measure id") auto

declare string_of_nat.simps [simp del]

text \<open>A parsed JSON value; \<open>get_prop v k\<close> is the property read \<open>v.k\<close> (\<open>None\<close> for \<open>undefined\<close>).\<close>

datatype json =
    JNull
  | JBool bool
  | JNumber number
  | JString string
  | JArray "json list"
  | JObject "(string \<times> json) list"

fun get_prop :: "json \<Rightarrow> string \<Rightarrow> json option" where
  "get_prop (JObject kvs) k = map_of (rev kvs) k"
| "get_prop _ k = None"

fun truthy :: "json \<Rightarrow> bool" where
  "truthy JNull = False"
| "truthy (JBool b) = b"
| "truthy (JNumber n) = (n \<noteq> NaN \<and> n \<noteq> Num 0 \<and> n \<noteq> NegZero)"
| "truthy (JString s) = (s \<noteq> [])"
| "truthy (JArray _) = True"
| "truthy (JObject _) = True"

text \<open>\<open>or_else v d\<close> is \<open>v || d\<close> for a possibly undefined \<open>v\<close>.\<close>

definition or_else :: "json option \<Rightarrow> json \<Rightarrow> json" where
  "or_else v d = (case v of Some x \<Rightarrow> (if truthy x then x else d) | None \<Rightarrow> d)"

section \<open>Exchange client (modules/hyperliquidClient.ts)\<close>

datatype OrderSide = BUY | SELL

datatype OrderType = LIMIT | MARKET

record HyperliquidOrder =
  ord_coin :: string
  ord_side :: OrderSide
  ord_size :: number
  ord_price :: "number option"
  orderType :: OrderType
  reduceOnly :: bool

datatype ResponseStatus = StatusSuccess | StatusError

text \<open>
  Fields \<open>order\<close>, \<open>id\<close> and \<open>error\<close> of the source's \<open>HyperliquidOrderResponse\<close> are
  \<open>placed\<close>, \<open>order_id\<close> and \<open>order_error\<close>. The last two carry whatever the venue sent.
\<close>

record HyperliquidOrderResponse =
  status :: ResponseStatus
  placed :: "HyperliquidOrder option"
  order_id :: "json option"
  order_error :: "json option"

record HyperliquidMarketData =
  md_coin :: string
  md_price :: number
  fundingRate :: number

text \<open>
  One iteration of the retry loop sees one of three things: \<open>fetch\<close> rejects (connection
  failure, or the 30 second \<open>AbortSignal.timeout\<close>); a response that is not \<open>ok\<close>, with
  its status and the outcome of \<open>response.text()\<close>; or an \<open>ok\<close> response with the outcome
  of \<open>response.json()\<close>.
\<close>

datatype http_exchange =
    FetchRejected js_error
  | HttpNotOk nat "js_error + string"
  | HttpOk "js_error + json"

text \<open>The body of the \<open>try\<close> block of the loop: the value returned or the error thrown.\<close>

definition attempt_result :: "http_exchange \<Rightarrow> js_error + json" where
  "attempt_result x =
     (case x of
        FetchRejected e \<Rightarrow> Inl e
      | HttpNotOk st body \<Rightarrow>
          (case body of
             Inl e \<Rightarrow> Inl e
           | Inr errorText \<Rightarrow>
               Inl (JsError False (''API error: '' @ string_of_nat st @ '' - '' @ errorText)))
      | HttpOk parsed \<Rightarrow>
          (case parsed of
             Inl e \<Rightarrow> Inl e
           | Inr responseData \<Rightarrow>
               if responseData = JNull
               then Inl (JsError False ''API returned null or undefined response'')
               else Inr responseData))"

definition isNetworkError :: "js_error \<Rightarrow> bool" where
  "isNetworkError e =
     (instanceofTypeError e \<or> str_includes (message e) ''network'' \<or>
      str_includes (message e) ''abort'' \<or> str_includes (message e) ''timeout'')"

definition backoffMs :: "nat \<Rightarrow> nat" where
  "backoffMs attempt = min (1000 * 2 ^ (attempt - 1)) 10000"

text \<open>
  What a call of \<open>makeRequest\<close> did: the value returned or the error thrown, the delays
  (in milliseconds) it slept between attempts, in order, and the number of \<open>fetch\<close> calls.
\<close>

record request_run =
  outcome :: "js_error + json"
  waits :: "nat list"
  attempts :: nat

function request_loop ::
  "(nat \<Rightarrow> http_exchange) \<Rightarrow> nat \<Rightarrow> nat \<Rightarrow> js_error option \<Rightarrow> nat list \<Rightarrow> request_run" where
  "request_loop fetch retries attempt lastError slept =
     (if attempt \<le> retries then
        (case attempt_result (fetch attempt) of
           Inr responseData \<Rightarrow> \<lparr>outcome = Inr responseData, waits = slept, attempts = attempt\<rparr>
         | Inl e \<Rightarrow>
             if isNetworkError e \<and> attempt < retries
             then request_loop fetch retries (attempt + 1) (Some e) (slept @ [backoffMs attempt])
             else \<lparr>outcome = Inl e, waits = slept, attempts = attempt\<rparr>)
      else
        \<lparr>outcome =
           Inl (case lastError of
                  Some e \<Rightarrow> e
                | None \<Rightarrow> JsError False ''Request failed for unknown reason''),
         waits = slept, attempts = attempt - 1\<rparr>)"
  by pat_completeness auto
termination
  by (relation "measure (\<lambda>(fetch, retries, attempt, lastError, slept). retries + 1 - attempt)") auto

declare request_loop.simps [simp del]

text \<open>
  The outside world during one request: the outcome of \<open>signRequest\<close> (the hex signature,
  or the exception of the HMAC library) and what the \<open>attempt\<close>-th \<open>fetch\<close> meets.
\<close>

record transport =
  signing :: "js_error + string"
  fetch_at :: "nat \<Rightarrow> http_exchange"

datatype http_method = GET | POST

definition makeRequest ::
  "transport \<Rightarrow> string \<Rightarrow> http_method \<Rightarrow> json option \<Rightarrow> nat \<Rightarrow> request_run" where
  "makeRequest net endpoint method data retries =
     (if method = POST \<and> (case data of Some d \<Rightarrow> truthy d | None \<Rightarrow> False) then
        (case signing net of
           Inl signError \<Rightarrow>
             \<lparr>outcome = Inl (JsError False (''Request signing failed: '' @ message signError)),
              waits = [], attempts = 0\<rparr>
         | Inr signature \<Rightarrow> request_loop (fetch_at net) retries 1 None [])
      else request_loop (fetch_at net) retries 1 None [])"

text \<open>
  The request body of an order. The source sends \<open>size\<close> and \<open>price\<close> as their decimal
  strings; the model keeps the numbers (only the fact that this is an object matters to
  \<open>makeRequest\<close>).
\<close>

definition requestData :: "HyperliquidOrder \<Rightarrow> json" where
  "requestData ord =
     JObject [(''action'', JObject
       [(''type'', JString (case orderType ord of LIMIT \<Rightarrow> ''limit'' | MARKET \<Rightarrow> ''market'')),
        (''coin'', JString (ord_coin ord)),
        (''side'', JString (case ord_side ord of BUY \<Rightarrow> ''BUY'' | SELL \<Rightarrow> ''SELL'')),
        (''size'', JNumber (ord_size ord)),
        (''price'', (case ord_price ord of
                       Some p \<Rightarrow> (if truthy (JNumber p) then JNumber p else JNull)
                     | None \<Rightarrow> JNull)),
        (''reduceOnly'', JBool (reduceOnly ord))])]"

definition placeOrder :: "transport \<Rightarrow> HyperliquidOrder \<Rightarrow> js_error + HyperliquidOrderResponse" where
  "placeOrder net ord =
     try_catch
       (case outcome (makeRequest net ''/trade'' POST (Some (requestData ord)) 3) of
          Inl e \<Rightarrow> Inl e
        | Inr response \<Rightarrow>
            if get_prop response ''status'' = Some (JString ''success'')
            then Inr \<lparr>status = StatusSuccess, placed = Some ord,
                      order_id = get_prop response ''id'', order_error = None\<rparr>
            else Inr \<lparr>status = StatusError, placed = None, order_id = None,
                      order_error =
                        Some (or_else (get_prop response ''error'') (JString ''Unknown error''))\<rparr>)
       (\<lambda>e. Inr \<lparr>status = StatusError, placed = None, order_id = None,
                  order_error = Some (JString (message e))\<rparr>)"


section \<open>Hedge controller (modules/hedgeController.ts)\<close>

text \<open>
  The text of \<open>details\<close> is kept as its template and arguments (the source formats the
  amounts with \<open>toFixed(2)\<close>).
\<close>

datatype details_text =
    NoRebalanceNeeded
  | FundingRateExceedsTolerance
  | IncreasedShortBy number
  | DecreasedShortBy number
  | ClosedAllPositionsFor string

text \<open>Field \<open>action\<close> of the source's \<open>ExecutionResult\<close> is \<open>result_action\<close>.\<close>

record ExecutionResult =
  success :: bool
  result_action :: HedgingAction
  details :: "details_text option"
  error :: "json option"
  timestamp :: int

text \<open>The part of \<open>config\<close> the controller reads, and the range check of configValidator.ts.\<close>

record config =
  pendlePerpTicker :: string
  rebalanceThreshold :: number
  fundingTolerance :: number

definition validTradingParameters :: "config \<Rightarrow> bool" where
  "validTradingParameters cfg =
     ((num_gt (rebalanceThreshold cfg) (Num 0) \<and> num_lt (rebalanceThreshold cfg) (Num 1)) \<and>
      (num_gt (fundingTolerance cfg) (Num 0) \<and> num_lt (fundingTolerance cfg) (Num 1)))"

text \<open>
  The controller sees the client through five methods. Each may return or throw; what it
  does is given from outside: \<open>getMarketData_reply ex k\<close> is the outcome of the \<open>k\<close>-th
  call (from 0) of \<open>client.getMarketData\<close>, and \<open>dateNow\<close> is what \<open>Date.now()\<close> reads when
  the result is built. The calls made are recorded in order.
\<close>

record exchange =
  getPosition_reply :: "js_error + HyperliquidPosition option"
  getMarketData_reply :: "nat \<Rightarrow> js_error + HyperliquidMarketData"
  openShortPosition_reply :: "number \<Rightarrow> js_error + HyperliquidOrderResponse"
  reduceShortPosition_reply :: "number \<Rightarrow> js_error + HyperliquidOrderResponse"
  closePosition_reply :: "js_error + HyperliquidOrderResponse"
  dateNow :: int

datatype client_call =
    GetPosition string
  | GetMarketData string
  | OpenShortPosition string number
  | ReduceShortPosition string number
  | ClosePosition string

fun is_GetMarketData :: "client_call \<Rightarrow> bool" where
  "is_GetMarketData (GetMarketData _) = True"
| "is_GetMarketData _ = False"

fun is_order_call :: "client_call \<Rightarrow> bool" where
  "is_order_call (OpenShortPosition _ _) = True"
| "is_order_call (ReduceShortPosition _ _) = True"
| "is_order_call (ClosePosition _) = True"
| "is_order_call _ = False"

definition getMarketData ::
  "exchange \<Rightarrow> config \<Rightarrow> client_call list \<Rightarrow> HyperliquidMarketData \<times> client_call list" where
  "getMarketData ex cfg calls =
     (let calls' = calls @ [GetMarketData (pendlePerpTicker cfg)] in
      case getMarketData_reply ex (length (filter is_GetMarketData calls)) of
        Inr marketData \<Rightarrow> (marketData, calls')
      | Inl e \<Rightarrow>
          (\<lparr>md_coin = pendlePerpTicker cfg, md_price = Num 0, fundingRate = Num 0\<rparr>, calls'))"

definition getHedgePosition ::
  "exchange \<Rightarrow> config \<Rightarrow> client_call list \<Rightarrow> HyperliquidPosition option \<times> client_call list" where
  "getHedgePosition ex cfg calls =
     (let calls' = calls @ [GetPosition (pendlePerpTicker cfg)] in
      case getPosition_reply ex of
        Inr position \<Rightarrow> (position, calls')
      | Inl e \<Rightarrow> (None, calls'))"

definition checkFundingRate ::
  "exchange \<Rightarrow> config \<Rightarrow> client_call list \<Rightarrow> bool \<times> client_call list" where
  "checkFundingRate ex cfg calls =
     (let (marketData, calls') = getMarketData ex cfg calls;
          body = (Inr (isFundingRateAcceptable (fundingRate marketData) (fundingTolerance cfg))
                  :: js_error + bool)
      in case body of
           Inr isFundingAcceptable \<Rightarrow> (isFundingAcceptable, calls')
         | Inl e \<Rightarrow> (True, calls'))"

text \<open>
  How the reply of an order call becomes a result. The source writes this test out after
  each of the three order calls; only the text of \<open>details\<close> and the default error text
  differ. An exception of the call propagates to the \<open>catch\<close> of \<open>updateHedgePosition\<close>.
\<close>

definition order_outcome ::
  "int \<Rightarrow> HedgingAction \<Rightarrow> js_error + HyperliquidOrderResponse \<Rightarrow> details_text \<Rightarrow> string \<Rightarrow>
     js_error + ExecutionResult" where
  "order_outcome now act reply done unknownError =
     (case reply of
        Inl e \<Rightarrow> Inl e
      | Inr orderResult \<Rightarrow>
          if status orderResult = StatusSuccess
          then Inr \<lparr>success = True, result_action = act, details = Some done, error = None,
                    timestamp = now\<rparr>
          else Inr \<lparr>success = False, result_action = act, details = None,
                    error = Some (or_else (order_error orderResult) (JString unknownError)),
                    timestamp = now\<rparr>)"

text \<open>
  The \<open>try\<close> block of \<open>updateHedgePosition\<close>. The deviation it computes with
  \<open>calculateDeviation\<close> is only logged.
\<close>

definition updateHedgePosition_try ::
  "exchange \<Rightarrow> config \<Rightarrow> LPPosition \<Rightarrow> (js_error + ExecutionResult) \<times> client_call list" where
  "updateHedgePosition_try ex cfg lpPosition =
     (let ticker = pendlePerpTicker cfg;
          (hedgePosition, calls1) = getHedgePosition ex cfg [];
          (marketData, calls2) = getMarketData ex cfg calls1;
          currentPrice = md_price marketData;
          decision =
            determineHedgeAction (Some lpPosition) hedgePosition (rebalanceThreshold cfg)
              currentPrice;
          act = action decision;
          change = sizeChange decision
      in case act of
        NO_ACTION \<Rightarrow>
          (Inr \<lparr>success = True, result_action = act, details = Some NoRebalanceNeeded,
                error = None, timestamp = dateNow ex\<rparr>, calls2)
      | INCREASE_SHORT \<Rightarrow>
          (let (isFundingAcceptable, calls3) = checkFundingRate ex cfg calls2 in
           if \<not> isFundingAcceptable
           then (Inr \<lparr>success = False, result_action = act,
                       details = Some FundingRateExceedsTolerance, error = None,
                       timestamp = dateNow ex\<rparr>, calls3)
           else (order_outcome (dateNow ex) act (openShortPosition_reply ex change)
                   (IncreasedShortBy change) ''Unknown error increasing short position'',
                 calls3 @ [OpenShortPosition ticker change]))
      | DECREASE_SHORT \<Rightarrow>
          (order_outcome (dateNow ex) act (reduceShortPosition_reply ex change)
             (DecreasedShortBy change) ''Unknown error decreasing short position'',
           calls2 @ [ReduceShortPosition ticker change])
      | CLOSE_POSITIONS \<Rightarrow>
          (order_outcome (dateNow ex) act (closePosition_reply ex)
             (ClosedAllPositionsFor ticker) ''Unknown error closing positions'',
           calls2 @ [ClosePosition ticker]))"

text \<open>The result built by the \<open>catch\<close> block of \<open>updateHedgePosition\<close>.\<close>

definition catch_result :: "exchange \<Rightarrow> js_error \<Rightarrow> ExecutionResult" where
  "catch_result ex e =
     \<lparr>success = False, result_action = NO_ACTION, details = None,
      error = Some (JString (message e)), timestamp = dateNow ex\<rparr>"

definition updateHedgePosition ::
  "exchange \<Rightarrow> config \<Rightarrow> LPPosition \<Rightarrow> (js_error + ExecutionResult) \<times> client_call list" where
  "updateHedgePosition ex cfg lpPosition =
     (let (body, calls) = updateHedgePosition_try ex cfg lpPosition in
      (try_catch body (\<lambda>e. Inr (catch_result ex e)), calls))"

section \<open>Specification-side notions and test data\<close>

text \<open>
  Rule 3 as the specification words it: the deviation is
  \<open>abs(requiredHedge - currentHedgeSize) / requiredHedge\<close>; above the threshold the short is
  increased by \<open>requiredHedge - currentHedgeSize\<close> when more is required than held and
  decreased by \<open>currentHedgeSize - requiredHedge\<close> otherwise; else nothing is done.
\<close>

definition rebalance_rule :: "number \<Rightarrow> number \<Rightarrow> number \<Rightarrow> HedgeDecision" where
  "rebalance_rule requiredHedge currentHedgeSize threshold =
     (if num_gt (num_div (num_abs (num_sub requiredHedge currentHedgeSize)) requiredHedge)
           threshold
      then (if num_gt requiredHedge currentHedgeSize
            then \<lparr>action = INCREASE_SHORT, sizeChange = num_sub requiredHedge currentHedgeSize\<rparr>
            else \<lparr>action = DECREASE_SHORT, sizeChange = num_sub currentHedgeSize requiredHedge\<rparr>)
      else \<lparr>action = NO_ACTION, sizeChange = Num 0\<rparr>)"

text \<open>
  \<open>r\<close> is \<open>x\<close> rounded to 2 decimals: for a finite \<open>x\<close>, there is a decimal \<open>n / 100\<close> at
  most half a hundredth away from \<open>x\<close> of which \<open>r\<close> is the nearest double; an infinity or
  \<open>NaN\<close> is left as it is.
\<close>

definition rounded_to_2_decimals :: "number \<Rightarrow> number \<Rightarrow> bool" where
  "rounded_to_2_decimals x r =
     (if is_finite x
      then (\<exists>n::int. \<bar>of_int n / 100 - real_of x\<bar> * 200 \<le> 1 \<and>
              num_eq r (round_to_double (of_int n / 100)))
      else r = x)"

text \<open>
  The guard of \<open>calculateDeviation\<close>: no hedge, or one smaller than \<open>1e-6\<close> (the double that
  the literal denotes).
\<close>

definition negligible_hedge :: "number \<Rightarrow> bool" where
  "negligible_hedge hedgeSize =
     (num_eq hedgeSize (Num 0) \<or>
      num_lt (num_abs hedgeSize) (round_to_double (1 / 1000000)))"

text \<open>
  Rule 1 applies: there is no LP position, or its total value is 0. The hedge has no
  numeric size: it is present and its size is \<open>NaN\<close>.
\<close>

definition no_lp_value :: "LPPosition option \<Rightarrow> bool" where
  "no_lp_value lpPosition =
     (case lpPosition of None \<Rightarrow> True | Some lp \<Rightarrow> num_eq (totalValueUSD lp) (Num 0))"

definition hedge_size_is_NaN :: "HyperliquidPosition option \<Rightarrow> bool" where
  "hedge_size_is_NaN hedgePosition =
     (case hedgePosition of None \<Rightarrow> False | Some hp \<Rightarrow> psize hp = NaN)"

text \<open>An attempt fails transiently when it throws an error the loop takes for a network error.\<close>

definition transient :: "http_exchange \<Rightarrow> bool" where
  "transient x = (case attempt_result x of Inl e \<Rightarrow> isNetworkError e | Inr d \<Rightarrow> False)"

text \<open>The positions of tests/utils/calculations.test.ts.\<close>

definition test_lpPosition :: LPPosition where
  "test_lpPosition =
     \<lparr>liquidityAmount = 1000, token0Amount = 100, token1Amount = 200,
      token0Address = ''0x123'', token1Address = ''0x456'', token0Symbol = ''PENDLE'',
      token1Symbol = ''USDT'', token0Decimals = Num 18, token1Decimals = Num 6,
      token0Exposure = Num 100, token1Exposure = Num 100, totalValueUSD = Num 200\<rparr>"

definition test_hedgePosition :: HyperliquidPosition where
  "test_hedgePosition =
     \<lparr>coin = ''PENDLE-PERP'', entryPrice = Num 10, psize = Num (- 100), side = SHORT,
      leverage = Num 5, marginUsd = Num 20, markPrice = Num 10, unrealizedPnl = Num 0,
      liquidationPrice = Num 12\<rparr>"

definition emptyLP :: LPPosition where
  "emptyLP =
     test_lpPosition\<lparr>token0Exposure := Num 0, token1Exposure := Num 0, totalValueUSD := Num 0\<rparr>"

definition highExposureLP :: LPPosition where
  "highExposureLP = test_lpPosition\<lparr>token0Exposure := Num 120\<rparr>"

definition lowExposureLP :: LPPosition where
  "lowExposureLP = test_lpPosition\<lparr>token0Exposure := Num 80\<rparr>"

text \<open>
  A position worth 100 USD that holds no token0 value (what the watcher computes from a
  token price of 0), and a hedge whose size did not parse as a number.
\<close>

definition token1OnlyLP :: LPPosition where
  "token1OnlyLP = test_lpPosition\<lparr>token0Exposure := Num 0, totalValueUSD := Num 100\<rparr>"

definition unparsedHedgePosition :: HyperliquidPosition where
  "unparsedHedgePosition = test_hedgePosition\<lparr>psize := NaN\<rparr>"

text \<open>
  The decision a tick takes, the funding rate its funding check reads (the second market
  data call of the tick), and the order calls among the calls made.
\<close>

definition pending_decision :: "exchange \<Rightarrow> config \<Rightarrow> LPPosition \<Rightarrow> HedgeDecision" where
  "pending_decision ex cfg lp =
     determineHedgeAction (Some lp) (fst (getHedgePosition ex cfg [])) (rebalanceThreshold cfg)
       (md_price (fst (getMarketData ex cfg [GetPosition (pendlePerpTicker cfg)])))"

definition funding_check_rate :: "exchange \<Rightarrow> config \<Rightarrow> number" where
  "funding_check_rate ex cfg =
     fundingRate (fst (getMarketData ex cfg
       [GetPosition (pendlePerpTicker cfg), GetMarketData (pendlePerpTicker cfg)]))"

definition order_calls :: "client_call list \<Rightarrow> client_call list" where
  "order_calls calls = filter is_order_call calls"

text \<open>The reply to the order call of a tick, if the tick makes one.\<close>

definition sent_order_reply ::
  "exchange \<Rightarrow> config \<Rightarrow> LPPosition \<Rightarrow> (js_error + HyperliquidOrderResponse) option" where
  "sent_order_reply ex cfg lp =
     (case order_calls (snd (updateHedgePosition ex cfg lp)) of
        [OpenShortPosition ticker sizeUsd] \<Rightarrow> Some (openShortPosition_reply ex sizeUsd)
      | [ReduceShortPosition ticker sizeUsd] \<Rightarrow> Some (reduceShortPosition_reply ex sizeUsd)
      | [ClosePosition ticker] \<Rightarrow> Some (closePosition_reply ex)
      | _ \<Rightarrow> None)"

text \<open>Venue replies and transports used as concrete inputs.\<close>

definition test_order :: HyperliquidOrder where
  "test_order =
     \<lparr>ord_coin = ''PENDLE-PERP'', ord_side = SELL, ord_size = Num 20, ord_price = None,
      orderType = MARKET, reduceOnly = False\<rparr>"

definition venue_success :: json where
  "venue_success = JObject [(''status'', JString ''success''), (''id'', JString ''42'')]"

definition venue_rejection :: json where
  "venue_rejection =
     JObject [(''status'', JString ''error''), (''error'', JString ''Insufficient margin'')]"

definition connection_refused :: js_error where
  "connection_refused = JsError True ''fetch failed''"

definition flaky_then_ok :: transport where
  "flaky_then_ok =
     \<lparr>signing = Inr ''5f2a'',
      fetch_at = (\<lambda>k. if k < 3 then FetchRejected connection_refused
                      else HttpOk (Inr venue_success))\<rparr>"

definition always_down :: transport where
  "always_down =
     \<lparr>signing = Inr ''5f2a'', fetch_at = (\<lambda>k. FetchRejected connection_refused)\<rparr>"

definition gateway_timeout_then_ok :: transport where
  "gateway_timeout_then_ok =
     \<lparr>signing = Inr ''5f2a'',
      fetch_at = (\<lambda>k. if k = 1 then HttpNotOk 504 (Inr ''upstream request timeout'')
                      else HttpOk (Inr venue_success))\<rparr>"

definition rejecting_venue :: transport where
  "rejecting_venue =
     \<lparr>signing = Inr ''5f2a'', fetch_at = (\<lambda>k. HttpOk (Inr venue_rejection))\<rparr>"

definition broken_signer :: transport where
  "broken_signer =
     \<lparr>signing = Inl (JsError True ''Invalid key length''),
      fetch_at = (\<lambda>k. HttpOk (Inr venue_success))\<rparr>"

text \<open>A configuration and exchanges used as concrete inputs.\<close>

definition test_config :: config where
  "test_config =
     \<lparr>pendlePerpTicker = ''PENDLE-PERP'', rebalanceThreshold = round_to_double (1 / 10),
      fundingTolerance = round_to_double (5 / 1000)\<rparr>"

definition order_accepted :: HyperliquidOrderResponse where
  "order_accepted =
     \<lparr>status = StatusSuccess, placed = None, order_id = Some (JString ''42''),
      order_error = None\<rparr>"

definition order_rejected :: HyperliquidOrderResponse where
  "order_rejected =
     \<lparr>status = StatusError, placed = None, order_id = None,
      order_error = Some (JString ''Insufficient margin'')\<rparr>"

definition costly_funding :: exchange where
  "costly_funding =
     \<lparr>getPosition_reply = Inr (Some test_hedgePosition),
      getMarketData_reply =
        (\<lambda>k. Inr \<lparr>md_coin = ''PENDLE-PERP'', md_price = Num 10, fundingRate = round_to_double (6 / 1000)\<rparr>),
      openShortPosition_reply = (\<lambda>sizeUsd. Inr order_accepted),
      reduceShortPosition_reply = (\<lambda>sizeUsd. Inr order_accepted),
      closePosition_reply = Inr order_accepted,
      dateNow = 1700000000000\<rparr>"

definition market_data_down :: exchange where
  "market_data_down = costly_funding\<lparr>getMarketData_reply := (\<lambda>k. Inl connection_refused)\<rparr>"

definition position_read_down :: exchange where
  "position_read_down =
     costly_funding
       \<lparr>getPosition_reply := Inl connection_refused,
        getMarketData_reply :=
          (\<lambda>k. Inr \<lparr>md_coin = ''PENDLE-PERP'', md_price = Num 10, fundingRate = Num 0\<rparr>)\<rparr>"

definition orders_failing :: exchange where
  "orders_failing =
     costly_funding
       \<lparr>reduceShortPosition_reply := (\<lambda>sizeUsd. Inr order_rejected),
        closePosition_reply := Inl connection_refused\<rparr>"


section \<open>Rounding to the nearest double\<close>

lemma pow2_pos: "0 < pow2 k"
  by (simp add: pow2_def)

lemma pow2_powr: "pow2 k = 2 powr (of_int k)"
  by (simp add: pow2_def powr_real_of_int inverse_eq_divide)

lemma floor_log2_eq: "0 < x \<Longrightarrow> floor_log2 x = \<lfloor>log 2 x\<rfloor>"
proof (induction x rule: floor_log2.induct)
  case (1 x)
  show ?case
  proof (cases "2 \<le> x")
    case True
    with 1 have "floor_log2 (x / 2) = \<lfloor>log 2 (x / 2)\<rfloor>" by simp
    moreover have "log 2 (x / 2) = log 2 x - 1" using True by (simp add: log_divide)
    ultimately show ?thesis using True by (subst floor_log2.simps) simp
  next
    case False
    show ?thesis
    proof (cases "x < 1")
      case True
      with 1 False have "floor_log2 (x * 2) = \<lfloor>log 2 (x * 2)\<rfloor>" by simp
      moreover have "log 2 (x * 2) = log 2 x + 1" using 1(3) by (simp add: log_mult)
      ultimately show ?thesis using True False 1(3) by (subst floor_log2.simps) simp
    next
      case g: False
      with False 1(3) have "0 \<le> log 2 x" "log 2 x < 1" by simp_all
      then have "\<lfloor>log 2 x\<rfloor> = 0" by linarith
      with g False 1(3) show ?thesis by (subst floor_log2.simps) simp
    qed
  qed
qed

lemma binade_eq:
  assumes "pow2 k \<le> \<bar>x\<bar>" "\<bar>x\<bar> < pow2 (k + 1)" "- 1022 \<le> k"
  shows "binade x = k"
proof -
  have pos: "0 < \<bar>x\<bar>" using assms(1) pow2_pos [of k] by linarith
  have "\<lfloor>log 2 \<bar>x\<bar>\<rfloor> = k"
    using assms(1,2) pos by (simp add: floor_log_eq_powr_iff pow2_powr)
  with assms(3) show ?thesis by (simp add: binade_def floor_log2_eq [OF pos])
qed

lemma round_to_double_at:
  assumes "pow2 k \<le> \<bar>x\<bar>" "\<bar>x\<bar> < pow2 (k + 1)" "- 1022 \<le> k"
  shows "round_to_double x =
     (let y = of_int (round_even (x / pow2 (k - 52))) * pow2 (k - 52)
      in if overflow_threshold \<le> \<bar>y\<bar> then (if x < 0 then NegInf else PosInf)
         else if y = 0 then (if x < 0 then NegZero else Num 0)
         else Num y)"
proof -
  have "x \<noteq> 0" using assms(1) pow2_pos [of k] by auto
  then show ?thesis by (simp add: round_to_double_def binade_eq [OF assms] Let_def)
qed

lemma round_even_nonneg: "0 \<le> z \<Longrightarrow> 0 \<le> round_even z"
  by (auto simp: round_even_def Let_def)

lemma round_even_nonpos: "z \<le> 0 \<Longrightarrow> round_even z \<le> 0"
proof -
  assume z: "z \<le> 0"
  show ?thesis
  proof (cases "z = 0")
    case True then show ?thesis by (simp add: round_even_def)
  next
    case False
    with z have "z < 0" by simp
    then have "\<lfloor>z\<rfloor> \<le> - 1" by linarith
    then show ?thesis by (auto simp: round_even_def Let_def)
  qed
qed

lemma round_to_double_not_NaN: "round_to_double x \<noteq> NaN"
  by (simp add: round_to_double_def Let_def)

lemma round_to_double_cases:
  "round_to_double x =
     (if x = 0 then Num 0
      else if overflow_threshold \<le> \<bar>of_int (round_even (x / pow2 (binade x - 52))) * pow2 (binade x - 52)\<bar>
      then (if x < 0 then NegInf else PosInf)
      else if of_int (round_even (x / pow2 (binade x - 52))) * pow2 (binade x - 52) = 0
      then (if x < 0 then NegZero else Num 0)
      else Num (of_int (round_even (x / pow2 (binade x - 52))) * pow2 (binade x - 52)))"
  by (simp add: round_to_double_def Let_def)

lemma round_to_double_pos:
  "0 < x \<Longrightarrow> round_to_double x = PosInf \<or> (\<exists>y. 0 \<le> y \<and> round_to_double x = Num y)"
proof -
  assume x: "0 < x"
  let ?q = "pow2 (binade x - 52)"
  have "0 \<le> x / ?q" using x pow2_pos [of "binade x - 52"] by simp
  then have "0 \<le> round_even (x / ?q)" by (rule round_even_nonneg)
  then have "0 \<le> of_int (round_even (x / ?q)) * ?q"
    using pow2_pos [of "binade x - 52"] by simp
  with x show ?thesis unfolding round_to_double_cases by auto
qed

lemma round_to_double_neg:
  "x < 0 \<Longrightarrow> round_to_double x = NegInf \<or> round_to_double x = NegZero \<or>
     (\<exists>y. y < 0 \<and> round_to_double x = Num y)"
proof -
  assume x: "x < 0"
  let ?q = "pow2 (binade x - 52)"
  let ?y = "of_int (round_even (x / ?q)) * ?q"
  have "x / ?q \<le> 0" using x pow2_pos [of "binade x - 52"] by (simp add: divide_nonpos_pos)
  then have "round_even (x / ?q) \<le> 0" by (rule round_even_nonpos)
  then have le: "?y \<le> 0"
    using pow2_pos [of "binade x - 52"] by (simp add: mult_nonpos_nonneg)
  show ?thesis
  proof (cases "?y = 0")
    case True
    with x show ?thesis unfolding round_to_double_cases by auto
  next
    case False
    with le have "?y < 0" by linarith
    with x show ?thesis unfolding round_to_double_cases by auto
  qed
qed

lemma below_overflow: "\<bar>y\<bar> \<le> 10 ^ 30 \<Longrightarrow> \<not> overflow_threshold \<le> \<bar>y\<bar>"
proof -
  have "(10::real) ^ 30 < 2 ^ 1024" by simp
  then show "\<bar>y\<bar> \<le> 10 ^ 30 \<Longrightarrow> \<not> overflow_threshold \<le> \<bar>y\<bar>"
    by (simp add: overflow_threshold_def)
qed

lemma round_to_double_small:
  assumes "pow2 k \<le> \<bar>x\<bar>" "\<bar>x\<bar> < pow2 (k + 1)" "- 1022 \<le> k"
    and "y = of_int (round_even (x / pow2 (k - 52))) * pow2 (k - 52)"
    and "y \<noteq> 0" "\<bar>y\<bar> \<le> 10 ^ 30"
  shows "round_to_double x = Num y"
  using assms(4-6) by (simp add: round_to_double_at [OF assms(1-3)] below_overflow Let_def)

text \<open>The doubles of the literals and intermediate results used below.\<close>

lemma round_to_double_values:
  "round_to_double 3 = Num 3"
  "round_to_double 10 = Num 10"
  "round_to_double (- 10) = Num (- 10)"
  "round_to_double 20 = Num 20"
  "round_to_double (- 20) = Num (- 20)"
  "round_to_double 100 = Num 100"
  "round_to_double (- 100) = Num (- 100)"
  "round_to_double (1 / 4) = Num (1 / 4)"
  "round_to_double (1 / 6) = Num (6004799503160661 / 36028797018963968)"
  "round_to_double (1 / 10) = Num (3602879701896397 / 36028797018963968)"
  "round_to_double (5 / 1000) = Num (5764607523034235 / 1152921504606846976)"
  "round_to_double (6 / 1000) = Num (3458764513820541 / 576460752303423488)"
  "round_to_double (1 / 200) = Num (5764607523034235 / 1152921504606846976)"
  "round_to_double (3 / 500) = Num (3458764513820541 / 576460752303423488)"
  "round_to_double (1 / 1000000) = Num (4722366482869645 / 4722366482869645213696)"
  "round_to_double (1 / 1000000000) = Num (4835703278458517 / 4835703278458516698824704)"
  "round_to_double (3602879701896397 / 36028797018963968 * 100) = Num 10"
proof -
  show "round_to_double 3 = Num 3"
    by (rule round_to_double_small [of 1]) (simp_all add: pow2_def round_even_def Let_def)
  show "round_to_double 10 = Num 10"
    by (rule round_to_double_small [of 3]) (simp_all add: pow2_def round_even_def Let_def)
  show "round_to_double (- 10) = Num (- 10)"
    by (rule round_to_double_small [of 3]) (simp_all add: pow2_def round_even_def Let_def)
  show "round_to_double 20 = Num 20"
    by (rule round_to_double_small [of 4]) (simp_all add: pow2_def round_even_def Let_def)
  show "round_to_double (- 20) = Num (- 20)"
    by (rule round_to_double_small [of 4]) (simp_all add: pow2_def round_even_def Let_def)
  show "round_to_double 100 = Num 100"
    by (rule round_to_double_small [of 6]) (simp_all add: pow2_def round_even_def Let_def)
  show "round_to_double (- 100) = Num (- 100)"
    by (rule round_to_double_small [of 6]) (simp_all add: pow2_def round_even_def Let_def)
  show "round_to_double (1 / 4) = Num (1 / 4)"
    by (rule round_to_double_small [of "- 2"]) (simp_all add: pow2_def round_even_def Let_def)
  show "round_to_double (1 / 6) = Num (6004799503160661 / 36028797018963968)"
    by (rule round_to_double_small [of "- 3"]) (simp_all add: pow2_def round_even_def Let_def)
  show "round_to_double (1 / 10) = Num (3602879701896397 / 36028797018963968)"
    by (rule round_to_double_small [of "- 4"]) (simp_all add: pow2_def round_even_def Let_def)
  show "round_to_double (5 / 1000) = Num (5764607523034235 / 1152921504606846976)"
    by (rule round_to_double_small [of "- 8"]) (simp_all add: pow2_def round_even_def Let_def)
  show "round_to_double (6 / 1000) = Num (3458764513820541 / 576460752303423488)"
    by (rule round_to_double_small [of "- 8"]) (simp_all add: pow2_def round_even_def Let_def)
  show "round_to_double (1 / 200) = Num (5764607523034235 / 1152921504606846976)"
    by (rule round_to_double_small [of "- 8"]) (simp_all add: pow2_def round_even_def Let_def)
  show "round_to_double (3 / 500) = Num (3458764513820541 / 576460752303423488)"
    by (rule round_to_double_small [of "- 8"]) (simp_all add: pow2_def round_even_def Let_def)
  show "round_to_double (1 / 1000000) = Num (4722366482869645 / 4722366482869645213696)"
    by (rule round_to_double_small [of "- 20"]) (simp_all add: pow2_def round_even_def Let_def)
  show "round_to_double (1 / 1000000000) =
      Num (4835703278458517 / 4835703278458516698824704)"
    by (rule round_to_double_small [of "- 30"]) (simp_all add: pow2_def round_even_def Let_def)
  show "round_to_double (3602879701896397 / 36028797018963968 * 100) = Num 10"
    by (rule round_to_double_small [of 3]) (simp_all add: pow2_def round_even_def Let_def)
qed

section \<open>Arithmetic of the number model\<close>

lemma num_lt_irrefl: "\<not> num_lt x x"
  by (cases x) (simp_all add: num_lt_def)

lemma num_ge0_iff: "num_ge x (Num 0) = (x = PosInf \<or> (is_finite x \<and> 0 \<le> real_of x))"
  by (cases x) (auto simp: num_ge_def num_le_def num_lt_def num_eq_def)

lemma num_abs_ge0: "x \<noteq> NaN \<Longrightarrow> num_ge (num_abs x) (Num 0)"
  by (cases x) (simp_all add: num_ge0_iff)

lemma num_zero_ge0: "num_ge (Num 0) (Num 0)"
  by (simp add: num_ge0_iff)

lemma signed_zero_ge0: "num_ge (signed_zero b) (Num 0)"
  by (simp add: num_ge0_iff signed_zero_def)

lemma num_gt_ge0: "num_gt x (Num 0) \<Longrightarrow> num_ge x (Num 0)"
  by (cases x) (simp_all add: num_ge0_iff num_gt_def num_lt_def)

lemma round_to_double_ge0: "0 < x \<Longrightarrow> num_ge (round_to_double x) (Num 0)"
  using round_to_double_pos [of x] by (auto simp: num_ge0_iff)

lemma posinf_ge0: "num_ge PosInf (Num 0)"
  by (simp add: num_ge0_iff)

lemma num_sub_gt_ge0: "num_gt r c \<Longrightarrow> num_ge (num_sub r c) (Num 0)"
  by (cases r; cases c)
    (auto simp: num_gt_def num_lt_def num_sub_def signed_inf_def round_to_double_ge0
       posinf_ge0)

lemma num_div_not_NaN: "num_div a b \<noteq> NaN \<Longrightarrow> a \<noteq> NaN \<and> b \<noteq> NaN"
  by (auto simp: num_div_def)

lemma num_abs_not_NaN: "num_abs a \<noteq> NaN \<Longrightarrow> a \<noteq> NaN"
  by (cases a) simp_all

lemma num_gt_not_NaN: "num_gt a b \<Longrightarrow> a \<noteq> NaN \<and> b \<noteq> NaN"
  by (auto simp: num_gt_def num_lt_def)

lemma num_sub_le_ge0:
  "num_sub r c \<noteq> NaN \<Longrightarrow> \<not> num_gt r c \<Longrightarrow> num_ge (num_sub c r) (Num 0)"
  by (cases r; cases c)
    (auto simp: num_gt_def num_lt_def num_sub_def signed_inf_def signed_zero_ge0
       round_to_double_ge0 posinf_ge0)

lemma round_to_double_0: "round_to_double 0 = Num 0"
  by (simp add: round_to_double_def)

lemma num_eq_round_refl: "num_eq (round_to_double x) (round_to_double x)"
  using round_to_double_not_NaN [of x] by (cases "round_to_double x") (simp_all add: num_eq_def)

lemma hundredths_close: "\<bar>of_int (hundredths a) / 100 - \<bar>a\<bar>\<bar> * 200 \<le> 1"
proof -
  define n where "n = \<lfloor>\<bar>a\<bar> * 100 + 1 / 2\<rfloor>"
  have "of_int n \<le> \<bar>a\<bar> * 100 + 1 / 2" and "\<bar>a\<bar> * 100 + 1 / 2 < of_int n + 1"
    unfolding n_def by linarith+
  then have "\<bar>of_int n / 100 - \<bar>a\<bar>\<bar> * 200 \<le> 1"
    by (simp add: abs_if)
  then show ?thesis by (simp add: hundredths_def n_def)
qed

lemma rounded_to_2_decimals_finite:
  "is_finite x \<Longrightarrow> \<bar>of_int n / 100 - real_of x\<bar> * 200 \<le> 1 \<Longrightarrow>
   num_eq r (round_to_double (of_int n / 100)) \<Longrightarrow> rounded_to_2_decimals x r"
  by (auto simp: rounded_to_2_decimals_def)

lemma parseFloat_toFixed2_rounds: "rounded_to_2_decimals x (parseFloat_toFixed2 x)"
proof (cases x)
  case (Num a)
  show ?thesis
  proof (cases "a < 0")
    case True
    then have close: "\<bar>of_int (- hundredths a) / 100 - real_of (Num a)\<bar> * 200 \<le> 1"
      using hundredths_close [of a] by (simp add: abs_if split: if_splits)
    have same: "num_eq (parseFloat_toFixed2 (Num a))
        (round_to_double (of_int (- hundredths a) / 100))"
    proof (cases "hundredths a = 0")
      case z: True
      with True show ?thesis by (simp add: signed_zero_def round_to_double_0 num_eq_def)
    next
      case False
      with True show ?thesis by (simp add: num_eq_round_refl)
    qed
    show ?thesis unfolding Num
      by (rule rounded_to_2_decimals_finite [OF _ close same]) simp
  next
    case False
    then have close: "\<bar>of_int (hundredths a) / 100 - real_of (Num a)\<bar> * 200 \<le> 1"
      using hundredths_close [of a] by (simp add: abs_if split: if_splits)
    have same: "num_eq (parseFloat_toFixed2 (Num a))
        (round_to_double (of_int (hundredths a) / 100))"
    proof (cases "hundredths a = 0")
      case z: True
      with False show ?thesis by (simp add: signed_zero_def round_to_double_0 num_eq_def)
    next
      case nz: False
      with False show ?thesis by (simp add: num_eq_round_refl)
    qed
    show ?thesis unfolding Num
      by (rule rounded_to_2_decimals_finite [OF _ close same]) simp
  qed
next
  case NegZero
  have close: "\<bar>of_int 0 / 100 - real_of NegZero\<bar> * 200 \<le> 1" by simp
  have same: "num_eq (parseFloat_toFixed2 NegZero) (round_to_double (of_int 0 / 100))"
    by (simp add: round_to_double_0 num_eq_def)
  show ?thesis unfolding NegZero
    by (rule rounded_to_2_decimals_finite [OF _ close same]) simp
qed (simp_all add: rounded_to_2_decimals_def)

text \<open>
  On a nonzero integer the result is the double nearest to that integer. A double of
  magnitude \<open>10^21\<close> or more is an integer and its own nearest double, which is what
  \<open>toFixed\<close> and \<open>parseFloat\<close> give for it.
\<close>

lemma parseFloat_toFixed2_integer:
  assumes "a \<in> \<int>" "a \<noteq> 0"
  shows "parseFloat_toFixed2 (Num a) = round_to_double a"
proof -
  from assms(1) obtain n :: int where a: "a = of_int n" by (auto elim: Ints_cases)
  with assms(2) have n: "n \<noteq> 0" by auto
  have "\<bar>a\<bar> * 100 + 1 / 2 = of_int (\<bar>n\<bar> * 100) + 1 / 2" by (simp add: a)
  then have "hundredths a = \<lfloor>of_int (\<bar>n\<bar> * 100) + (1 / 2 :: real)\<rfloor>"
    by (simp only: hundredths_def)
  also have "\<dots> = \<bar>n\<bar> * 100" by linarith
  finally have h: "hundredths a = \<bar>n\<bar> * 100" .
  show ?thesis
  proof (cases "n < 0")
    case True
    with h n show ?thesis by (simp add: a)
  next
    case False
    with h n show ?thesis by (simp add: a)
  qed
qed


section \<open>The hedge decision\<close>

lemma determineHedgeAction_rule1:
  "num_eq (totalValueUSD lp) (Num 0) \<Longrightarrow>
   determineHedgeAction (Some lp) hedge thr price =
     \<lparr>action = CLOSE_POSITIONS,
      sizeChange = (case hedge of Some hp \<Rightarrow> num_abs (psize hp) | None \<Rightarrow> Num 0)\<rparr>"
  by (simp add: determineHedgeAction_def Let_def)

lemma determineHedgeAction_no_position:
  "determineHedgeAction None hedge thr price =
     \<lparr>action = CLOSE_POSITIONS,
      sizeChange = (case hedge of Some hp \<Rightarrow> num_abs (psize hp) | None \<Rightarrow> Num 0)\<rparr>"
  by (simp add: determineHedgeAction_def Let_def)

lemma determineHedgeAction_rule2:
  "\<not> num_eq (totalValueUSD lp) (Num 0) \<Longrightarrow>
   determineHedgeAction (Some lp) None thr price =
     (if num_gt (token0Exposure lp) (Num 0)
      then \<lparr>action = INCREASE_SHORT, sizeChange = token0Exposure lp\<rparr>
      else \<lparr>action = NO_ACTION, sizeChange = Num 0\<rparr>)"
  by (simp add: determineHedgeAction_def Let_def calculateRequiredHedgeSize_def)

lemma determineHedgeAction_rule3:
  "\<not> num_eq (totalValueUSD lp) (Num 0) \<Longrightarrow>
   determineHedgeAction (Some lp) (Some hp) thr price =
     rebalance_rule (token0Exposure lp) (num_abs (psize hp)) thr"
  by (simp add: determineHedgeAction_def rebalance_rule_def calculateRequiredHedgeSize_def
      Let_def)

lemma determineHedgeAction_ignores_price:
  "determineHedgeAction lpo hedge thr price = determineHedgeAction lpo hedge thr price'"
  by (simp add: determineHedgeAction_def)

lemma rebalance_rule_not_close: "action (rebalance_rule r c t) \<noteq> CLOSE_POSITIONS"
  by (simp add: rebalance_rule_def)

lemma rebalance_rule_sizeChange: "num_ge (sizeChange (rebalance_rule r c t)) (Num 0)"
proof -
  let ?d = "num_div (num_abs (num_sub r c)) r"
  show ?thesis
  proof (cases "num_gt ?d t")
    case True
    then have "?d \<noteq> NaN" using num_gt_not_NaN by blast
    then have ok: "num_sub r c \<noteq> NaN" using num_div_not_NaN num_abs_not_NaN by blast
    show ?thesis
    proof (cases "num_gt r c")
      case gt: True
      with True show ?thesis by (simp add: rebalance_rule_def num_sub_gt_ge0)
    next
      case ngt: False
      with True ok show ?thesis by (simp add: rebalance_rule_def num_sub_le_ge0)
    qed
  next
    case False
    then show ?thesis by (simp add: rebalance_rule_def num_zero_ge0)
  qed
qed

text \<open>The numbers of the test positions, and Rule 3 on them with the threshold 0.1.\<close>

lemma test_numbers:
  "totalValueUSD test_lpPosition = Num 200" "token0Exposure test_lpPosition = Num 100"
  "totalValueUSD highExposureLP = Num 200" "token0Exposure highExposureLP = Num 120"
  "totalValueUSD lowExposureLP = Num 200" "token0Exposure lowExposureLP = Num 80"
  "totalValueUSD emptyLP = Num 0" "token0Exposure emptyLP = Num 0"
  "totalValueUSD token1OnlyLP = Num 100" "token0Exposure token1OnlyLP = Num 0"
  "psize test_hedgePosition = Num (- 100)" "psize unparsedHedgePosition = NaN"
  by (simp_all add: test_lpPosition_def highExposureLP_def lowExposureLP_def emptyLP_def
      token1OnlyLP_def test_hedgePosition_def unparsedHedgePosition_def)

lemma rebalance_rule_values:
  "rebalance_rule (Num 120) (Num 100) (round_to_double (1 / 10)) =
     \<lparr>action = INCREASE_SHORT, sizeChange = Num 20\<rparr>"
  "rebalance_rule (Num 80) (Num 100) (round_to_double (1 / 10)) =
     \<lparr>action = DECREASE_SHORT, sizeChange = Num 20\<rparr>"
  "rebalance_rule (Num 100) (Num 100) (round_to_double (1 / 10)) =
     \<lparr>action = NO_ACTION, sizeChange = Num 0\<rparr>"
  "rebalance_rule (Num 0) (Num 100) (round_to_double (1 / 10)) =
     \<lparr>action = DECREASE_SHORT, sizeChange = Num 100\<rparr>"
  by (simp_all add: rebalance_rule_def num_sub_def num_div_def num_gt_def num_lt_def
      signed_zero_def signed_inf_def round_to_double_values)

text \<open>
  At the boundary the rounded quotient decides: with exposure 100 against a hedge of 97
  the deviation is the double nearest to 3/100, which is the threshold 0.03 itself and so
  not above it.
\<close>

lemma rebalance_rule_at_threshold:
  "rebalance_rule (Num 100) (Num 97) (round_to_double (3 / 100)) =
     \<lparr>action = NO_ACTION, sizeChange = Num 0\<rparr>"
proof -
  have "num_div (num_abs (num_sub (Num 100) (Num 97))) (Num 100) = round_to_double (3 / 100)"
    by (simp add: num_sub_def num_div_def round_to_double_values)
  then show ?thesis by (simp add: rebalance_rule_def num_gt_def num_lt_irrefl)
qed

text \<open>
  Claim C1, as amended. The rule that closes the hedge tests the total USD value of the LP
  position, not its token0 exposure: \<open>determineHedgeAction\<close> returns \<open>CLOSE_POSITIONS\<close>
  exactly when \<open>totalValueUSD\<close> is 0, for every hedge position, present or null, and then
  \<open>sizeChange\<close> is the absolute value of the hedge's size, or 0 when there is no hedge.
\<close>

theorem determineHedgeAction_close_positions:
  "(action (determineHedgeAction (Some lp) hedgePosition thr price) = CLOSE_POSITIONS) =
     num_eq (totalValueUSD lp) (Num 0) \<and>
   (num_eq (totalValueUSD lp) (Num 0) \<longrightarrow>
    sizeChange (determineHedgeAction (Some lp) hedgePosition thr price) =
      (case hedgePosition of Some hp \<Rightarrow> num_abs (psize hp) | None \<Rightarrow> Num 0))"
proof (cases "num_eq (totalValueUSD lp) (Num 0)")
  case True
  then show ?thesis by (simp add: determineHedgeAction_rule1)
next
  case False
  then show ?thesis
    by (cases hedgePosition)
      (simp_all add: determineHedgeAction_rule2 determineHedgeAction_rule3
        rebalance_rule_not_close)
qed

theorem determineHedgeAction_close_positions_witness:
  "num_eq (totalValueUSD emptyLP) (Num 0) \<and>
   action (determineHedgeAction (Some emptyLP) (Some test_hedgePosition)
     (round_to_double (1 / 10)) (Num 10)) = CLOSE_POSITIONS \<and>
   sizeChange (determineHedgeAction (Some emptyLP) (Some test_hedgePosition)
     (round_to_double (1 / 10)) (Num 10)) = Num 100 \<and>
   sizeChange (determineHedgeAction (Some emptyLP) None (round_to_double (1 / 10)) (Num 10)) =
     Num 0"
proof -
  have z: "num_eq (totalValueUSD emptyLP) (Num 0)"
    by (simp add: test_numbers num_eq_def)
  have s: "num_abs (psize test_hedgePosition) = Num 100"
    by (simp add: test_numbers)
  show ?thesis
    using z s
      determineHedgeAction_close_positions
        [of emptyLP "Some test_hedgePosition" "round_to_double (1 / 10)" "Num 10"]
      determineHedgeAction_close_positions
        [of emptyLP None "round_to_double (1 / 10)" "Num 10"]
    by simp
qed

text \<open>
  Claim C1 as stated fails: with a token0 exposure of 0 and a total value of 100 the
  decision is not \<open>CLOSE_POSITIONS\<close>. With a hedge of size -100 the unguarded quotient
  \<open>100 / 0\<close> is \<open>Infinity\<close> and the decision is \<open>DECREASE_SHORT\<close> by 100; with no hedge
  it is \<open>NO_ACTION\<close>.
\<close>

theorem determineHedgeAction_zero_exposure_counterexample:
  "num_eq (token0Exposure token1OnlyLP) (Num 0) \<and>
   determineHedgeAction (Some token1OnlyLP) (Some test_hedgePosition)
     (round_to_double (1 / 10)) (Num 10) =
     \<lparr>action = DECREASE_SHORT, sizeChange = Num 100\<rparr> \<and>
   determineHedgeAction (Some token1OnlyLP) None (round_to_double (1 / 10)) (Num 10) =
     \<lparr>action = NO_ACTION, sizeChange = Num 0\<rparr>"
proof -
  have nz: "\<not> num_eq (totalValueUSD token1OnlyLP) (Num 0)"
    and z: "num_eq (token0Exposure token1OnlyLP) (Num 0)"
    and ng: "\<not> num_gt (token0Exposure token1OnlyLP) (Num 0)"
    by (simp_all add: test_numbers num_eq_def num_gt_def num_lt_def)
  have "determineHedgeAction (Some token1OnlyLP) (Some test_hedgePosition)
      (round_to_double (1 / 10)) (Num 10) = \<lparr>action = DECREASE_SHORT, sizeChange = Num 100\<rparr>"
    by (simp add: determineHedgeAction_rule3 [OF nz] test_numbers rebalance_rule_values)
  moreover have "determineHedgeAction (Some token1OnlyLP) None (round_to_double (1 / 10))
      (Num 10) = \<lparr>action = NO_ACTION, sizeChange = Num 0\<rparr>"
    using ng by (simp add: determineHedgeAction_rule2 [OF nz])
  ultimately show ?thesis using z by simp
qed

text \<open>
  Claim C4. For an LP position of nonzero total value and an existing hedge position the
  decision is Rule 3 of the specification, with \<open>requiredHedge\<close> the token0 exposure,
  \<open>currentHedgeSize\<close> the absolute hedge size and the deviation
  \<open>abs(requiredHedge - currentHedgeSize) / requiredHedge\<close> computed in double arithmetic:
  above the threshold \<open>INCREASE_SHORT\<close> by \<open>requiredHedge - currentHedgeSize\<close> when more is
  required than held, else \<open>DECREASE_SHORT\<close> by \<open>currentHedgeSize - requiredHedge\<close>;
  otherwise \<open>NO_ACTION\<close> with 0. Against a hedge of 100 at threshold 0.1, exposure 120
  gives \<open>INCREASE_SHORT\<close> 20, exposure 80 gives \<open>DECREASE_SHORT\<close> 20 and exposure 100 gives
  \<open>NO_ACTION\<close>.
\<close>

theorem determineHedgeAction_rebalance:
  "(\<not> num_eq (totalValueUSD lp) (Num 0) \<longrightarrow>
    determineHedgeAction (Some lp) (Some hp) thr price =
      rebalance_rule (token0Exposure lp) (num_abs (psize hp)) thr) \<and>
   determineHedgeAction (Some highExposureLP) (Some test_hedgePosition)
     (round_to_double (1 / 10)) (Num 10) =
     \<lparr>action = INCREASE_SHORT, sizeChange = Num 20\<rparr> \<and>
   determineHedgeAction (Some lowExposureLP) (Some test_hedgePosition)
     (round_to_double (1 / 10)) (Num 10) =
     \<lparr>action = DECREASE_SHORT, sizeChange = Num 20\<rparr> \<and>
   determineHedgeAction (Some test_lpPosition) (Some test_hedgePosition)
     (round_to_double (1 / 10)) (Num 10) =
     \<lparr>action = NO_ACTION, sizeChange = Num 0\<rparr>"
proof -
  have nz: "\<not> num_eq (totalValueUSD highExposureLP) (Num 0)"
    "\<not> num_eq (totalValueUSD lowExposureLP) (Num 0)"
    "\<not> num_eq (totalValueUSD test_lpPosition) (Num 0)"
    by (simp_all add: test_numbers num_eq_def)
  have "determineHedgeAction (Some highExposureLP) (Some test_hedgePosition)
      (round_to_double (1 / 10)) (Num 10) = \<lparr>action = INCREASE_SHORT, sizeChange = Num 20\<rparr>"
    by (simp add: determineHedgeAction_rule3 [OF nz(1)] test_numbers rebalance_rule_values)
  moreover have "determineHedgeAction (Some lowExposureLP) (Some test_hedgePosition)
      (round_to_double (1 / 10)) (Num 10) = \<lparr>action = DECREASE_SHORT, sizeChange = Num 20\<rparr>"
    by (simp add: determineHedgeAction_rule3 [OF nz(2)] test_numbers rebalance_rule_values)
  moreover have "determineHedgeAction (Some test_lpPosition) (Some test_hedgePosition)
      (round_to_double (1 / 10)) (Num 10) = \<lparr>action = NO_ACTION, sizeChange = Num 0\<rparr>"
    by (simp add: determineHedgeAction_rule3 [OF nz(3)] test_numbers rebalance_rule_values)
  ultimately show ?thesis by (simp add: determineHedgeAction_rule3)
qed

theorem determineHedgeAction_rebalance_witness:
  "\<not> num_eq (totalValueUSD highExposureLP) (Num 0) \<and>
   determineHedgeAction (Some highExposureLP) (Some test_hedgePosition)
     (round_to_double (1 / 10)) (Num 10) =
     rebalance_rule (Num 120) (Num 100) (round_to_double (1 / 10)) \<and>
   rebalance_rule (Num 120) (Num 100) (round_to_double (1 / 10)) =
     \<lparr>action = INCREASE_SHORT, sizeChange = Num 20\<rparr> \<and>
   \<not> num_eq (totalValueUSD test_lpPosition) (Num 0) \<and>
   determineHedgeAction (Some test_lpPosition) (Some (test_hedgePosition\<lparr>psize := Num (- 97)\<rparr>))
     (round_to_double (3 / 100)) (Num 10) =
     \<lparr>action = NO_ACTION, sizeChange = Num 0\<rparr>"
proof -
  have nz: "\<not> num_eq (totalValueUSD highExposureLP) (Num 0)"
    "\<not> num_eq (totalValueUSD test_lpPosition) (Num 0)"
    by (simp_all add: test_numbers num_eq_def)
  have args: "token0Exposure highExposureLP = Num 120"
    "num_abs (psize test_hedgePosition) = Num 100"
    "token0Exposure test_lpPosition = Num 100"
    "num_abs (psize (test_hedgePosition\<lparr>psize := Num (- 97)\<rparr>)) = Num 97"
    by (simp_all add: test_numbers)
  from determineHedgeAction_rebalance
    [of highExposureLP test_hedgePosition "round_to_double (1 / 10)" "Num 10"] nz(1)
  have 1: "determineHedgeAction (Some highExposureLP) (Some test_hedgePosition)
      (round_to_double (1 / 10)) (Num 10) =
      rebalance_rule (token0Exposure highExposureLP)
        (num_abs (psize test_hedgePosition)) (round_to_double (1 / 10))"
    by blast
  from determineHedgeAction_rebalance
    [of test_lpPosition "test_hedgePosition\<lparr>psize := Num (- 97)\<rparr>"
      "round_to_double (3 / 100)" "Num 10"] nz(2)
  have 2: "determineHedgeAction (Some test_lpPosition)
      (Some (test_hedgePosition\<lparr>psize := Num (- 97)\<rparr>)) (round_to_double (3 / 100)) (Num 10) =
      rebalance_rule (token0Exposure test_lpPosition)
        (num_abs (psize (test_hedgePosition\<lparr>psize := Num (- 97)\<rparr>)))
        (round_to_double (3 / 100))"
    by blast
  from nz 1 2 show ?thesis
    by (simp only: args rebalance_rule_values rebalance_rule_at_threshold simp_thms)
qed

lemma num_abs_ge0_iff: "num_ge (num_abs x) (Num 0) = (x \<noteq> NaN)"
  by (cases x) (simp_all add: num_ge0_iff)

text \<open>
  Claim C9, as amended. The \<open>sizeChange\<close> returned by \<open>determineHedgeAction\<close> is greater
  than or equal to 0 for every input (any LP position, whatever its exposure, any hedge
  position or none, any threshold) but one kind: a hedge position whose size is \<open>NaN\<close>
  under Rule 1 (no LP position, or one of total value 0), where \<open>sizeChange\<close> is
  \<open>abs(NaN)\<close>.
\<close>

theorem determineHedgeAction_sizeChange_nonnegative:
  "num_ge (sizeChange (determineHedgeAction lpo hedge thr price)) (Num 0) =
     (\<not> (no_lp_value lpo \<and> hedge_size_is_NaN hedge))"
proof (cases "no_lp_value lpo")
  case True
  then have "determineHedgeAction lpo hedge thr price =
      \<lparr>action = CLOSE_POSITIONS,
       sizeChange = (case hedge of Some hp \<Rightarrow> num_abs (psize hp) | None \<Rightarrow> Num 0)\<rparr>"
    by (cases lpo)
      (simp_all add: no_lp_value_def determineHedgeAction_no_position
        determineHedgeAction_rule1)
  with True show ?thesis
    by (cases hedge) (simp_all add: hedge_size_is_NaN_def num_abs_ge0_iff num_zero_ge0)
next
  case False
  then obtain lp where lp: "lpo = Some lp" and nz: "\<not> num_eq (totalValueUSD lp) (Num 0)"
    by (cases lpo) (simp_all add: no_lp_value_def)
  have "num_ge (sizeChange (determineHedgeAction (Some lp) hedge thr price)) (Num 0)"
    using nz
    by (cases hedge)
      (simp_all add: determineHedgeAction_rule2 determineHedgeAction_rule3
        rebalance_rule_sizeChange num_gt_ge0 num_zero_ge0)
  with False lp show ?thesis by simp
qed

theorem determineHedgeAction_sizeChange_nonnegative_witness:
  "\<not> no_lp_value (Some test_lpPosition) \<and> hedge_size_is_NaN (Some unparsedHedgePosition) \<and>
   num_ge (sizeChange (determineHedgeAction (Some test_lpPosition) (Some unparsedHedgePosition)
     (round_to_double (1 / 10)) (Num 10))) (Num 0) \<and>
   no_lp_value (Some emptyLP) \<and> \<not> hedge_size_is_NaN (Some test_hedgePosition) \<and>
   num_ge (sizeChange (determineHedgeAction (Some emptyLP) (Some test_hedgePosition)
     (round_to_double (1 / 10)) (Num 10))) (Num 0) \<and>
   num_ge (sizeChange (determineHedgeAction (Some token1OnlyLP) None
     (round_to_double (1 / 10)) (Num 10))) (Num 0)"
proof -
  have f: "\<not> no_lp_value (Some test_lpPosition)" "hedge_size_is_NaN (Some unparsedHedgePosition)"
    "no_lp_value (Some emptyLP)" "\<not> hedge_size_is_NaN (Some test_hedgePosition)"
    "\<not> hedge_size_is_NaN None"
    by (simp_all add: no_lp_value_def hedge_size_is_NaN_def test_numbers num_eq_def)
  then show ?thesis
    using
      determineHedgeAction_sizeChange_nonnegative
        [of "Some test_lpPosition" "Some unparsedHedgePosition" "round_to_double (1 / 10)"
          "Num 10"]
      determineHedgeAction_sizeChange_nonnegative
        [of "Some emptyLP" "Some test_hedgePosition" "round_to_double (1 / 10)" "Num 10"]
      determineHedgeAction_sizeChange_nonnegative
        [of "Some token1OnlyLP" None "round_to_double (1 / 10)" "Num 10"]
    by simp
qed

text \<open>
  Claim C9 as stated fails for a hedge position whose size is \<open>NaN\<close> under an LP position
  of total value 0: the returned \<open>sizeChange\<close> is \<open>abs(NaN)\<close>, which is not \<open>\<ge> 0\<close>.
\<close>

theorem determineHedgeAction_sizeChange_counterexample:
  "determineHedgeAction (Some emptyLP) (Some unparsedHedgePosition)
     (round_to_double (1 / 10)) (Num 10) =
     \<lparr>action = CLOSE_POSITIONS, sizeChange = NaN\<rparr> \<and>
   \<not> num_ge (sizeChange (determineHedgeAction (Some emptyLP) (Some unparsedHedgePosition)
     (round_to_double (1 / 10)) (Num 10))) (Num 0)"
proof -
  have z: "num_eq (totalValueUSD emptyLP) (Num 0)"
    by (simp add: test_numbers num_eq_def)
  show ?thesis
    by (simp add: determineHedgeAction_rule1 [OF z] test_numbers num_ge0_iff)
qed


section \<open>Deviation reporting\<close>

lemma guard_literal: "\<not> negligible_hedge (round_to_double (1 / 1000000))"
  by (simp add: negligible_hedge_def round_to_double_values num_eq_def num_lt_def)

lemma deviation_values:
  "calculateDeviation (Num 100) (Num 100) = Num 0"
  "calculateDeviation (Num 110) (Num 100) = Num 10"
  "calculateDeviation (Num 90) (Num 100) = Num 10"
  "calculateDeviation (Num 100) (Num 0) = Num 100"
  "calculateDeviation (Num 0) (Num 0) = Num 0"
  "calculateDeviation (Num 100) (round_to_double (1 / 1000000000)) = Num 100"
proof -
  have g: "\<not> (num_eq (Num 100) (Num 0) \<or>
      num_lt (num_abs (Num 100)) (round_to_double (1 / 1000000)))"
    by (simp add: round_to_double_values num_eq_def num_lt_def)
  have m: "num_mul (Num (3602879701896397 / 36028797018963968)) (Num 100) = Num 10"
    by (simp add: num_mul_def, rule round_to_double_small [of 3])
      (simp_all add: pow2_def round_even_def Let_def)
  have q: "num_div (Num 10) (Num 100) = Num (3602879701896397 / 36028797018963968)"
    by (simp add: num_div_def round_to_double_values)
  have t: "parseFloat_toFixed2 (Num 10) = Num 10" "parseFloat_toFixed2 (Num 0) = Num 0"
    by (simp_all add: hundredths_def round_to_double_values signed_zero_def)
  show "calculateDeviation (Num 100) (Num 100) = Num 0"
    unfolding calculateDeviation_def Let_def using g
    by (simp add: num_sub_def num_div_def num_mul_def signed_zero_def t
        del: parseFloat_toFixed2.simps)
  have "num_abs (num_sub (Num 110) (Num 100)) = Num 10"
    by (simp add: num_sub_def round_to_double_values)
  then show "calculateDeviation (Num 110) (Num 100) = Num 10"
    unfolding calculateDeviation_def Let_def using g
    by (simp add: q m t del: parseFloat_toFixed2.simps)
  have "num_abs (num_sub (Num 90) (Num 100)) = Num 10"
    by (simp add: num_sub_def round_to_double_values)
  then show "calculateDeviation (Num 90) (Num 100) = Num 10"
    unfolding calculateDeviation_def Let_def using g
    by (simp add: q m t del: parseFloat_toFixed2.simps)
  show "calculateDeviation (Num 100) (Num 0) = Num 100"
    by (simp add: calculateDeviation_def num_eq_def num_gt_def num_lt_def)
  show "calculateDeviation (Num 0) (Num 0) = Num 0"
    by (simp add: calculateDeviation_def num_eq_def num_gt_def num_lt_def)
  show "calculateDeviation (Num 100) (round_to_double (1 / 1000000000)) = Num 100"
    by (simp add: calculateDeviation_def round_to_double_values num_eq_def num_gt_def
        num_lt_def)
qed

text \<open>
  Three inputs on which double arithmetic shows: a hedge of exactly the guard literal is
  not negligible; a quotient just below a tie rounds down; and a difference that
  overflows gives \<open>-Infinity\<close>.
\<close>

lemma deviation_at_guard_literal:
  "calculateDeviation (Num 100) (round_to_double (1 / 1000000)) = Num 9999999900"
proof -
  let ?h = "Num (4722366482869645 / 4722366482869645213696)"
  have g: "\<not> (num_eq ?h (Num 0) \<or> num_lt (num_abs ?h) ?h)"
    by (simp add: num_eq_def num_lt_def)
  have s1: "num_sub (Num 100) ?h = Num (879609293424707 / 8796093022208)"
    by (simp add: num_sub_def, rule round_to_double_small [of 6])
      (simp_all add: pow2_def round_even_def Let_def)
  have s2: "num_div (Num (879609293424707 / 8796093022208)) ?h = Num 99999999"
    by (simp add: num_div_def, rule round_to_double_small [of 26])
      (simp_all add: pow2_def round_even_def Let_def)
  have s3: "num_mul (Num 99999999) (Num 100) = Num 9999999900"
    by (simp add: num_mul_def, rule round_to_double_small [of 33])
      (simp_all add: pow2_def round_even_def Let_def)
  have s4: "parseFloat_toFixed2 (Num 9999999900) = Num 9999999900"
    by (simp add: hundredths_def, rule round_to_double_small [of 33])
      (simp_all add: pow2_def round_even_def Let_def)
  show ?thesis
    unfolding calculateDeviation_def round_to_double_values Let_def
    using g by (simp add: s1 s2 s3 s4 del: parseFloat_toFixed2.simps)
qed

lemma deviation_near_tie:
  "calculateDeviation (round_to_double (1311725 / 100000)) (Num 5) =
     round_to_double (16234 / 100)"
proof -
  have e: "round_to_double (1311725 / 100000) = Num (7384355276515705 / 562949953421312)"
    by (rule round_to_double_small [of 3]) (simp_all add: pow2_def round_even_def Let_def)
  have d6: "round_to_double (1 / 1000000) = Num (4722366482869645 / 4722366482869645213696)"
    by (simp add: round_to_double_values)
  have g: "\<not> (num_eq (Num 5) (Num 0) \<or> num_lt (num_abs (Num 5)) (round_to_double (1 / 1000000)))"
    by (simp add: d6 num_eq_def num_lt_def)
  have s1: "num_sub (Num (7384355276515705 / 562949953421312)) (Num 5) =
      Num (4569605509409145 / 562949953421312)"
    by (simp add: num_sub_def, rule round_to_double_small [of 3])
      (simp_all add: pow2_def round_even_def Let_def)
  have s2: "num_div (Num (4569605509409145 / 562949953421312)) (Num 5) =
      Num (913921101881829 / 562949953421312)"
    by (simp add: num_div_def, rule round_to_double_small [of 0])
      (simp_all add: pow2_def round_even_def Let_def)
  have s3: "num_mul (Num (913921101881829 / 562949953421312)) (Num 100) =
      Num (5712006886761431 / 35184372088832)"
    by (simp add: num_mul_def, rule round_to_double_small [of 7])
      (simp_all add: pow2_def round_even_def Let_def)
  have s4: "parseFloat_toFixed2 (Num (5712006886761431 / 35184372088832)) =
      round_to_double (16234 / 100)"
    by (simp add: hundredths_def)
  show ?thesis
    unfolding calculateDeviation_def e Let_def
    using g by (simp add: s1 s2 s3 s4 del: parseFloat_toFixed2.simps)
qed

lemma round_to_double_overflow: "round_to_double (2 ^ 1024) = PosInf"
proof -
  have "round_to_double (2 ^ 1024) =
     (let y = of_int (round_even (2 ^ 1024 / pow2 (1024 - 52))) * pow2 (1024 - 52)
      in if overflow_threshold \<le> \<bar>y\<bar> then (if (2::real) ^ 1024 < 0 then NegInf else PosInf)
         else if y = 0 then (if (2::real) ^ 1024 < 0 then NegZero else Num 0)
         else Num y)"
    by (rule round_to_double_at) (simp_all add: pow2_def)
  also have "\<dots> = PosInf"
    by (simp add: pow2_def round_even_def Let_def overflow_threshold_def)
  finally show ?thesis .
qed

lemma deviation_overflow:
  "calculateDeviation (Num (2 ^ 1023)) (Num (- (2 ^ 1023))) = NegInf"
proof -
  have d6: "round_to_double (1 / 1000000) = Num (4722366482869645 / 4722366482869645213696)"
    by (simp add: round_to_double_values)
  have g: "\<not> (num_eq (Num (- (2 ^ 1023))) (Num 0) \<or>
      num_lt (num_abs (Num (- (2 ^ 1023)))) (round_to_double (1 / 1000000)))"
    by (simp add: d6 num_eq_def num_lt_def)
  have "(2::real) ^ 1023 - - (2 ^ 1023) = 2 ^ 1024" by simp
  then have s1: "num_sub (Num (2 ^ 1023)) (Num (- (2 ^ 1023))) = PosInf"
    by (simp add: num_sub_def round_to_double_overflow del: power_numeral)
  show ?thesis
    unfolding calculateDeviation_def Let_def s1
    using g by (simp add: num_div_def num_mul_def signed_inf_def)
qed

text \<open>
  Claim C6. \<open>calculateDeviation(exposure, hedgeSize)\<close> returns, when \<open>hedgeSize\<close> is 0 or
  smaller in magnitude than \<open>1e-6\<close>, 100 for a positive exposure and 0 otherwise; in every
  other case it returns \<open>abs(exposure - hedgeSize) / hedgeSize * 100\<close>, computed in double
  arithmetic, rounded to 2 decimals. The six values of the specification are as stated.
\<close>

theorem calculateDeviation_spec:
  "(negligible_hedge hedgeSize \<longrightarrow>
    calculateDeviation exposure hedgeSize =
      (if num_gt exposure (Num 0) then Num 100 else Num 0)) \<and>
   (\<not> negligible_hedge hedgeSize \<longrightarrow>
    rounded_to_2_decimals
      (num_mul (num_div (num_abs (num_sub exposure hedgeSize)) hedgeSize) (Num 100))
      (calculateDeviation exposure hedgeSize)) \<and>
   calculateDeviation (Num 100) (Num 100) = Num 0 \<and>
   calculateDeviation (Num 110) (Num 100) = Num 10 \<and>
   calculateDeviation (Num 90) (Num 100) = Num 10 \<and>
   calculateDeviation (Num 100) (Num 0) = Num 100 \<and>
   calculateDeviation (Num 0) (Num 0) = Num 0 \<and>
   calculateDeviation (Num 100) (round_to_double (1 / 1000000000)) = Num 100"
proof -
  have guarded: "negligible_hedge hedgeSize \<longrightarrow>
      calculateDeviation exposure hedgeSize =
        (if num_gt exposure (Num 0) then Num 100 else Num 0)"
    by (simp add: calculateDeviation_def negligible_hedge_def)
  have rounded: "\<not> negligible_hedge hedgeSize \<longrightarrow>
      rounded_to_2_decimals
        (num_mul (num_div (num_abs (num_sub exposure hedgeSize)) hedgeSize) (Num 100))
        (calculateDeviation exposure hedgeSize)"
    by (simp add: calculateDeviation_def negligible_hedge_def parseFloat_toFixed2_rounds
        del: parseFloat_toFixed2.simps)
  from guarded rounded deviation_values show ?thesis by blast
qed

theorem calculateDeviation_spec_witness:
  "negligible_hedge (round_to_double (1 / 1000000000)) \<and>
   calculateDeviation (Num 100) (round_to_double (1 / 1000000000)) = Num 100 \<and>
   \<not> negligible_hedge (Num 5) \<and>
   num_mul (num_div (num_abs (num_sub (round_to_double (1311725 / 100000)) (Num 5))) (Num 5))
     (Num 100) = Num (5712006886761431 / 35184372088832) \<and>
   rounded_to_2_decimals (Num (5712006886761431 / 35184372088832))
     (calculateDeviation (round_to_double (1311725 / 100000)) (Num 5)) \<and>
   calculateDeviation (round_to_double (1311725 / 100000)) (Num 5) =
     round_to_double (16234 / 100)"
proof -
  have g: "negligible_hedge (round_to_double (1 / 1000000000))" "\<not> negligible_hedge (Num 5)"
    by (simp_all add: negligible_hedge_def round_to_double_values num_eq_def num_lt_def)
  have e: "round_to_double (1311725 / 100000) = Num (7384355276515705 / 562949953421312)"
    by (rule round_to_double_small [of 3]) (simp_all add: pow2_def round_even_def Let_def)
  have s1: "num_sub (Num (7384355276515705 / 562949953421312)) (Num 5) =
      Num (4569605509409145 / 562949953421312)"
    by (simp add: num_sub_def, rule round_to_double_small [of 3])
      (simp_all add: pow2_def round_even_def Let_def)
  have s2: "num_div (Num (4569605509409145 / 562949953421312)) (Num 5) =
      Num (913921101881829 / 562949953421312)"
    by (simp add: num_div_def, rule round_to_double_small [of 0])
      (simp_all add: pow2_def round_even_def Let_def)
  have s3: "num_mul (Num (913921101881829 / 562949953421312)) (Num 100) =
      Num (5712006886761431 / 35184372088832)"
    by (simp add: num_mul_def, rule round_to_double_small [of 7])
      (simp_all add: pow2_def round_even_def Let_def)
  have d: "num_mul (num_div (num_abs (num_sub (round_to_double (1311725 / 100000)) (Num 5)))
      (Num 5)) (Num 100) = Num (5712006886761431 / 35184372088832)"
    unfolding e s1 by (simp add: s2 s3)
  from calculateDeviation_spec [of "round_to_double (1 / 1000000000)" "Num 100"] g
  have a: "calculateDeviation (Num 100) (round_to_double (1 / 1000000000)) = Num 100"
    by (simp add: num_gt_def num_lt_def)
  from calculateDeviation_spec [of "Num 5" "round_to_double (1311725 / 100000)"] g
  have "rounded_to_2_decimals
      (num_mul (num_div (num_abs (num_sub (round_to_double (1311725 / 100000)) (Num 5)))
        (Num 5)) (Num 100))
      (calculateDeviation (round_to_double (1311725 / 100000)) (Num 5))"
    by blast
  then have b: "rounded_to_2_decimals (Num (5712006886761431 / 35184372088832))
      (calculateDeviation (round_to_double (1311725 / 100000)) (Num 5))"
    by (simp only: d)
  from g a b d deviation_near_tie show ?thesis by blast
qed


section \<open>The request loop of the exchange client\<close>

lemma request_loop_exit:
  "\<not> attempt \<le> retries \<Longrightarrow>
   request_loop fetch retries attempt lastError slept =
     \<lparr>outcome = Inl (case lastError of Some e \<Rightarrow> e
                     | None \<Rightarrow> JsError False ''Request failed for unknown reason''),
      waits = slept, attempts = attempt - 1\<rparr>"
  by (subst request_loop.simps) simp

lemma request_loop_return:
  "attempt \<le> retries \<Longrightarrow> attempt_result (fetch attempt) = Inr d \<Longrightarrow>
   request_loop fetch retries attempt lastError slept =
     \<lparr>outcome = Inr d, waits = slept, attempts = attempt\<rparr>"
  by (subst request_loop.simps) simp

lemma request_loop_retry:
  "attempt < retries \<Longrightarrow> attempt_result (fetch attempt) = Inl e \<Longrightarrow> isNetworkError e \<Longrightarrow>
   request_loop fetch retries attempt lastError slept =
     request_loop fetch retries (attempt + 1) (Some e) (slept @ [backoffMs attempt])"
  by (subst request_loop.simps) simp

lemma request_loop_throw:
  "attempt \<le> retries \<Longrightarrow> attempt_result (fetch attempt) = Inl e \<Longrightarrow>
   \<not> (isNetworkError e \<and> attempt < retries) \<Longrightarrow>
   request_loop fetch retries attempt lastError slept =
     \<lparr>outcome = Inl e, waits = slept, attempts = attempt\<rparr>"
  by (subst request_loop.simps) auto

lemma request_loop_attempts_bounds:
  "attempt \<le> retries \<Longrightarrow>
   attempt \<le> attempts (request_loop fetch retries attempt lastError slept) \<and>
   attempts (request_loop fetch retries attempt lastError slept) \<le> retries"
proof (induction fetch retries attempt lastError slept rule: request_loop.induct)
  case (1 fetch retries attempt lastError slept)
  note le = \<open>attempt \<le> retries\<close>
  show ?case
  proof (cases "attempt_result (fetch attempt)")
    case (Inr d)
    with le show ?thesis by (simp add: request_loop_return)
  next
    case (Inl e)
    show ?thesis
    proof (cases "isNetworkError e \<and> attempt < retries")
      case False
      with le Inl show ?thesis by (simp add: request_loop_throw)
    next
      case True
      let ?r = "request_loop fetch retries (attempt + 1) (Some e) (slept @ [backoffMs attempt])"
      from True have le': "attempt + 1 \<le> retries" and lt: "attempt < retries" and net: "isNetworkError e"
        by simp_all
      have eq: "request_loop fetch retries attempt lastError slept = ?r"
        using lt Inl net by (rule request_loop_retry)
      have "attempt + 1 \<le> attempts ?r \<and> attempts ?r \<le> retries"
        using "1.IH" [OF le Inl True le'] .
      then show ?thesis unfolding eq by simp
    qed
  qed
qed

lemma request_loop_waits:
  "attempt \<le> retries \<Longrightarrow>
   waits (request_loop fetch retries attempt lastError slept) =
     slept @ map backoffMs [attempt..<attempts (request_loop fetch retries attempt lastError slept)]"
proof (induction fetch retries attempt lastError slept rule: request_loop.induct)
  case (1 fetch retries attempt lastError slept)
  note le = \<open>attempt \<le> retries\<close>
  show ?case
  proof (cases "attempt_result (fetch attempt)")
    case (Inr d)
    with le show ?thesis by (simp add: request_loop_return)
  next
    case (Inl e)
    show ?thesis
    proof (cases "isNetworkError e \<and> attempt < retries")
      case False
      with le Inl show ?thesis by (simp add: request_loop_throw)
    next
      case True
      let ?r = "request_loop fetch retries (attempt + 1) (Some e) (slept @ [backoffMs attempt])"
      from True have le': "attempt + 1 \<le> retries" and lt: "attempt < retries" and net: "isNetworkError e"
        by simp_all
      have eq: "request_loop fetch retries attempt lastError slept = ?r"
        using lt Inl net by (rule request_loop_retry)
      have ih: "waits ?r = (slept @ [backoffMs attempt]) @ map backoffMs [attempt + 1..<attempts ?r]"
        using "1.IH" [OF le Inl True le'] .
      have "attempt + 1 \<le> attempts ?r"
        using request_loop_attempts_bounds [OF le'] by blast
      then have "[attempt..<attempts ?r] = attempt # [attempt + 1..<attempts ?r]"
        by (simp add: upt_conv_Cons)
      with ih show ?thesis unfolding eq by simp
    qed
  qed
qed

lemma request_loop_reaches:
  "(\<forall>k. a \<le> k \<and> k < n \<longrightarrow> transient (fetch k)) \<Longrightarrow> a \<le> n \<Longrightarrow> n \<le> retries \<Longrightarrow>
   \<not> transient (fetch n) \<or> n = retries \<Longrightarrow>
   outcome (request_loop fetch retries a le ws) = attempt_result (fetch n) \<and>
   attempts (request_loop fetch retries a le ws) = n"
proof (induction "n - a" arbitrary: a le ws)
  case 0
  then have an: "a = n" by simp
  show ?case
  proof (cases "attempt_result (fetch n)")
    case (Inr d)
    have "request_loop fetch retries n le ws = \<lparr>outcome = Inr d, waits = ws, attempts = n\<rparr>"
      using \<open>n \<le> retries\<close> Inr by (rule request_loop_return)
    with Inr an show ?thesis by simp
  next
    case (Inl e)
    with 0 have "\<not> (isNetworkError e \<and> n < retries)"
      by (auto simp: transient_def)
    with \<open>n \<le> retries\<close> Inl
    have "request_loop fetch retries n le ws = \<lparr>outcome = Inl e, waits = ws, attempts = n\<rparr>"
      by (rule request_loop_throw)
    with Inl an show ?thesis by simp
  qed
next
  case (Suc d)
  then have lt: "a < n" by simp
  with Suc.prems have tr: "transient (fetch a)" by simp
  then obtain e where e: "attempt_result (fetch a) = Inl e" "isNetworkError e"
    by (auto simp: transient_def split: sum.splits)
  from lt Suc.prems have a_lt: "a < retries" by simp
  have step: "request_loop fetch retries a le ws =
      request_loop fetch retries (a + 1) (Some e) (ws @ [backoffMs a])"
    using a_lt e by (rule request_loop_retry)
  have "d = n - (a + 1)" using Suc.hyps by simp
  moreover have "\<forall>k. a + 1 \<le> k \<and> k < n \<longrightarrow> transient (fetch k)" using Suc.prems by simp
  moreover have "a + 1 \<le> n" using lt by simp
  ultimately have
    "outcome (request_loop fetch retries (a + 1) (Some e) (ws @ [backoffMs a])) = attempt_result (fetch n) \<and>
     attempts (request_loop fetch retries (a + 1) (Some e) (ws @ [backoffMs a])) = n"
    using Suc.hyps(1) Suc.prems(3,4) by blast
  then show ?case unfolding step .
qed


lemma backoffMs_values: "backoffMs 1 = 1000" "backoffMs (Suc 0) = 1000" "backoffMs 2 = 2000"
  by (simp_all add: backoffMs_def)

lemma request_loop_initial_waits:
  "waits (request_loop fetch retries 1 None []) =
     map backoffMs [1..<attempts (request_loop fetch retries 1 None [])]"
proof (cases "1 \<le> retries")
  case True
  then show ?thesis using request_loop_waits [of 1 retries fetch None "[]"] by simp
next
  case False
  then have "\<not> 1 \<le> retries" by simp
  then show ?thesis by (simp add: request_loop_exit)
qed

lemma request_loop_initial_attempts: "attempts (request_loop fetch retries 1 None []) \<le> retries"
proof (cases "1 \<le> retries")
  case True
  then show ?thesis using request_loop_attempts_bounds [of 1 retries fetch None "[]"] by simp
next
  case False
  then have "\<not> 1 \<le> retries" by simp
  then show ?thesis by (simp add: request_loop_exit)
qed

text \<open>
  Claim C5. In the request loop, as \<open>makeRequest\<close> enters it: at most \<open>retries\<close> attempts
  are made; the wait after the failed attempt \<open>k\<close> is \<open>min(1000 * 2^(k-1), 10000)\<close>
  milliseconds, for every attempt but the last one made; when the attempts before \<open>n\<close>
  fail transiently and attempt \<open>n\<close> succeeds, its result is returned; when every one of
  the \<open>retries\<close> attempts fails transiently, the error of the last attempt is thrown; and
  two transient failures followed by a success wait 1000 + 2000 milliseconds in total.
\<close>

theorem request_loop_retry_policy:
  "attempts (request_loop fetch retries 1 None []) \<le> retries \<and>
   waits (request_loop fetch retries 1 None []) =
     map (\<lambda>k. min (1000 * 2 ^ (k - 1)) 10000) [1..<attempts (request_loop fetch retries 1 None [])] \<and>
   ((\<forall>k. 1 \<le> k \<and> k < n \<longrightarrow> transient (fetch k)) \<and> 1 \<le> n \<and> n \<le> retries \<and>
      attempt_result (fetch n) = Inr d \<longrightarrow>
    outcome (request_loop fetch retries 1 None []) = Inr d \<and>
    attempts (request_loop fetch retries 1 None []) = n) \<and>
   ((\<forall>k. 1 \<le> k \<and> k \<le> retries \<longrightarrow> transient (fetch k)) \<and> 0 < retries \<longrightarrow>
    (\<exists>e. attempt_result (fetch retries) = Inl e \<and> isNetworkError e \<and>
         outcome (request_loop fetch retries 1 None []) = Inl e) \<and>
    attempts (request_loop fetch retries 1 None []) = retries) \<and>
   (transient (fetch 1) \<and> transient (fetch 2) \<and> attempt_result (fetch 3) = Inr d \<and> 3 \<le> retries \<longrightarrow>
    outcome (request_loop fetch retries 1 None []) = Inr d \<and>
    waits (request_loop fetch retries 1 None []) = [1000, 2000] \<and>
    sum_list (waits (request_loop fetch retries 1 None [])) = 1000 + 2000)"
  (is "?bound \<and> ?delays \<and> ?later \<and> ?exhausted \<and> ?twice")
proof -
  let ?run = "request_loop fetch retries 1 None []"
  have bound: ?bound by (rule request_loop_initial_attempts)
  have delays: ?delays
    using request_loop_initial_waits [of fetch retries] by (simp add: backoffMs_def [abs_def])
  have later: ?later
  proof (intro impI)
    assume h: "(\<forall>k. 1 \<le> k \<and> k < n \<longrightarrow> transient (fetch k)) \<and> 1 \<le> n \<and> n \<le> retries \<and>
      attempt_result (fetch n) = Inr d"
    then have "\<not> transient (fetch n) \<or> n = retries" by (simp add: transient_def)
    with h have "outcome ?run = attempt_result (fetch n) \<and> attempts ?run = n"
      using request_loop_reaches [of 1 n fetch retries None "[]"] by blast
    with h show "outcome ?run = Inr d \<and> attempts ?run = n" by simp
  qed
  have exhausted: ?exhausted
  proof (intro impI)
    assume h: "(\<forall>k. 1 \<le> k \<and> k \<le> retries \<longrightarrow> transient (fetch k)) \<and> 0 < retries"
    then have "transient (fetch retries)" by simp
    then obtain e where e: "attempt_result (fetch retries) = Inl e" "isNetworkError e"
      by (auto simp: transient_def split: sum.splits)
    from h have "\<forall>k. 1 \<le> k \<and> k < retries \<longrightarrow> transient (fetch k)" by simp
    moreover from h have "1 \<le> retries" by simp
    ultimately have "outcome ?run = attempt_result (fetch retries) \<and> attempts ?run = retries"
      using request_loop_reaches [of 1 retries fetch retries None "[]"] by blast
    with e show "(\<exists>e. attempt_result (fetch retries) = Inl e \<and> isNetworkError e \<and>
         outcome ?run = Inl e) \<and> attempts ?run = retries" by simp
  qed
  have twice: ?twice
  proof (intro impI)
    assume h: "transient (fetch 1) \<and> transient (fetch 2) \<and> attempt_result (fetch 3) = Inr d \<and> 3 \<le> retries"
    have "\<forall>k. 1 \<le> k \<and> k < 3 \<longrightarrow> transient (fetch k)"
    proof (intro allI impI)
      fix k :: nat assume "1 \<le> k \<and> k < 3"
      then have "k = 1 \<or> k = 2" by auto
      with h show "transient (fetch k)" by auto
    qed
    moreover from h have "\<not> transient (fetch 3) \<or> 3 = retries" by (simp add: transient_def)
    ultimately have r: "outcome ?run = attempt_result (fetch 3) \<and> attempts ?run = 3"
      using h request_loop_reaches [of 1 3 fetch retries None "[]"] by simp
    have "[1..<3] = [1, 2::nat]" by (simp add: upt_rec)
    with r have "waits ?run = [1000, 2000]"
      using request_loop_initial_waits [of fetch retries] by (simp add: backoffMs_values)
    with r h show "outcome ?run = Inr d \<and> waits ?run = [1000, 2000] \<and>
      sum_list (waits ?run) = 1000 + 2000" by simp
  qed
  from bound delays later exhausted twice show ?thesis by blast
qed

lemma transient_connection_refused: "transient (FetchRejected connection_refused)"
  by (simp add: transient_def attempt_result_def isNetworkError_def connection_refused_def)

theorem request_loop_retry_policy_witness:
  "transient (fetch_at flaky_then_ok 1) \<and> transient (fetch_at flaky_then_ok 2) \<and>
   attempt_result (fetch_at flaky_then_ok 3) = Inr venue_success \<and>
   outcome (request_loop (fetch_at flaky_then_ok) 3 1 None []) = Inr venue_success \<and>
   attempts (request_loop (fetch_at flaky_then_ok) 3 1 None []) = 3 \<and>
   waits (request_loop (fetch_at flaky_then_ok) 3 1 None []) = [1000, 2000] \<and>
   transient (fetch_at always_down 1) \<and> transient (fetch_at always_down 2) \<and>
   transient (fetch_at always_down 3) \<and>
   outcome (request_loop (fetch_at always_down) 3 1 None []) = Inl connection_refused \<and>
   attempts (request_loop (fetch_at always_down) 3 1 None []) = 3"
proof -
  have f: "transient (fetch_at flaky_then_ok 1)" "transient (fetch_at flaky_then_ok 2)"
    by (simp_all add: flaky_then_ok_def transient_connection_refused)
  have ok: "attempt_result (fetch_at flaky_then_ok 3) = Inr venue_success"
    by (simp add: flaky_then_ok_def attempt_result_def venue_success_def)
  have allf: "\<forall>k. 1 \<le> k \<and> k < 3 \<longrightarrow> transient (fetch_at flaky_then_ok k)"
    by (simp add: flaky_then_ok_def transient_connection_refused)
  have down: "\<forall>k. transient (fetch_at always_down k)"
    by (simp add: always_down_def transient_connection_refused)
  have res: "attempt_result (fetch_at always_down 3) = Inl connection_refused"
    by (simp add: always_down_def attempt_result_def)
  note t1 = request_loop_retry_policy [of "fetch_at flaky_then_ok" 3 3 venue_success]
  note t2 = request_loop_retry_policy [of "fetch_at always_down" 3 3 venue_success]
  from t1 have
    "transient (fetch_at flaky_then_ok 1) \<and> transient (fetch_at flaky_then_ok 2) \<and>
       attempt_result (fetch_at flaky_then_ok 3) = Inr venue_success \<and> (3::nat) \<le> 3 \<longrightarrow>
     outcome (request_loop (fetch_at flaky_then_ok) 3 1 None []) = Inr venue_success \<and>
     waits (request_loop (fetch_at flaky_then_ok) 3 1 None []) = [1000, 2000] \<and>
     sum_list (waits (request_loop (fetch_at flaky_then_ok) 3 1 None [])) = 1000 + 2000"
    by (elim conjE)
  with f ok have a:
    "outcome (request_loop (fetch_at flaky_then_ok) 3 1 None []) = Inr venue_success \<and>
     waits (request_loop (fetch_at flaky_then_ok) 3 1 None []) = [1000, 2000]"
    by simp
  from t1 have
    "(\<forall>k. 1 \<le> k \<and> k < 3 \<longrightarrow> transient (fetch_at flaky_then_ok k)) \<and> (1::nat) \<le> 3 \<and> (3::nat) \<le> 3 \<and>
       attempt_result (fetch_at flaky_then_ok 3) = Inr venue_success \<longrightarrow>
     outcome (request_loop (fetch_at flaky_then_ok) 3 1 None []) = Inr venue_success \<and>
     attempts (request_loop (fetch_at flaky_then_ok) 3 1 None []) = 3"
    by (elim conjE)
  with allf ok have b: "attempts (request_loop (fetch_at flaky_then_ok) 3 1 None []) = 3"
    by simp
  from t2 have
    "(\<forall>k. 1 \<le> k \<and> k \<le> 3 \<longrightarrow> transient (fetch_at always_down k)) \<and> (0::nat) < 3 \<longrightarrow>
     (\<exists>e. attempt_result (fetch_at always_down 3) = Inl e \<and> isNetworkError e \<and>
          outcome (request_loop (fetch_at always_down) 3 1 None []) = Inl e) \<and>
     attempts (request_loop (fetch_at always_down) 3 1 None []) = 3"
    by (elim conjE)
  with down res have c:
    "outcome (request_loop (fetch_at always_down) 3 1 None []) = Inl connection_refused \<and>
     attempts (request_loop (fetch_at always_down) 3 1 None []) = 3"
    by auto
  from a b c f ok down show ?thesis by simp
qed



lemma signing_error_not_retried:
  "signing net = Inl signError \<Longrightarrow> truthy d \<Longrightarrow>
   makeRequest net endpoint POST (Some d) retries =
     \<lparr>outcome = Inl (JsError False (''Request signing failed: '' @ message signError)),
      waits = [], attempts = 0\<rparr>"
  by (simp add: makeRequest_def)

lemma null_body_not_retried:
  "0 < retries \<Longrightarrow> fetch 1 = HttpOk (Inr JNull) \<Longrightarrow>
   request_loop fetch retries 1 None [] =
     \<lparr>outcome = Inl (JsError False ''API returned null or undefined response''),
      waits = [], attempts = 1\<rparr>"
proof -
  assume r: "0 < retries" and f: "fetch 1 = HttpOk (Inr JNull)"
  have e: "attempt_result (fetch 1) =
      Inl (JsError False ''API returned null or undefined response'')"
    using f by (simp add: attempt_result_def)
  have n: "\<not> (isNetworkError (JsError False ''API returned null or undefined response'') \<and>
      1 < retries)"
    by (simp add: isNetworkError_def)
  from r have "1 \<le> retries" by simp
  then show ?thesis using e n by (rule request_loop_throw)
qed

lemma http_error_not_retried:
  "0 < retries \<Longrightarrow> fetch 1 = HttpNotOk st (Inr errorText) \<Longrightarrow>
   \<not> isNetworkError (JsError False (''API error: '' @ string_of_nat st @ '' - '' @ errorText)) \<Longrightarrow>
   request_loop fetch retries 1 None [] =
     \<lparr>outcome = Inl (JsError False (''API error: '' @ string_of_nat st @ '' - '' @ errorText)),
      waits = [], attempts = 1\<rparr>"
proof -
  assume r: "0 < retries" and f: "fetch 1 = HttpNotOk st (Inr errorText)"
    and n: "\<not> isNetworkError (JsError False (''API error: '' @ string_of_nat st @ '' - '' @ errorText))"
  have e: "attempt_result (fetch 1) =
      Inl (JsError False (''API error: '' @ string_of_nat st @ '' - '' @ errorText))"
    using f by (simp add: attempt_result_def)
  from n have n': "\<not> (isNetworkError (JsError False (''API error: '' @ string_of_nat st @ '' - '' @ errorText)) \<and>
      1 < retries)" by simp
  from r have "1 \<le> retries" by simp
  then show ?thesis using e n' by (rule request_loop_throw)
qed

text \<open>
  Claim C2: the code departs from it. An HTTP response that is not \<open>ok\<close> is turned into an
  error whose message embeds the response body, and the loop takes any error whose message
  contains \<open>network\<close>, \<open>abort\<close> or \<open>timeout\<close> for a network error. A 504 response with
  body \<open>upstream request timeout\<close> to an order request is therefore not fatal: the loop
  waits 1000 milliseconds and sends the request again, here successfully. (A signing error,
  a null body and an HTTP error whose text carries none of the three words are fatal, as
  the three lemmas above show.)
\<close>

theorem makeRequest_http_error_retried:
  "attempt_result (fetch_at gateway_timeout_then_ok 1) =
     Inl (JsError False ''API error: 504 - upstream request timeout'') \<and>
   isNetworkError (JsError False ''API error: 504 - upstream request timeout'') \<and>
   makeRequest gateway_timeout_then_ok ''/trade'' POST (Some (requestData test_order)) 3 =
     \<lparr>outcome = Inr venue_success, waits = [1000], attempts = 2\<rparr>"
proof -
  have a: "attempt_result (fetch_at gateway_timeout_then_ok 1) =
      Inl (JsError False ''API error: 504 - upstream request timeout'')"
    by (simp add: gateway_timeout_then_ok_def attempt_result_def string_of_nat.simps)
  have n: "isNetworkError (JsError False ''API error: 504 - upstream request timeout'')"
    by (simp add: isNetworkError_def)
  have b: "attempt_result (fetch_at gateway_timeout_then_ok (1 + 1)) = Inr venue_success"
    by (simp add: gateway_timeout_then_ok_def attempt_result_def venue_success_def)
  have "request_loop (fetch_at gateway_timeout_then_ok) 3 1 None [] =
      request_loop (fetch_at gateway_timeout_then_ok) 3 (1 + 1)
        (Some (JsError False ''API error: 504 - upstream request timeout'')) ([] @ [backoffMs 1])"
    using _ a n by (rule request_loop_retry) simp
  also have "\<dots> = \<lparr>outcome = Inr venue_success, waits = [] @ [backoffMs 1], attempts = 1 + 1\<rparr>"
    using _ b by (rule request_loop_return) simp
  finally have "request_loop (fetch_at gateway_timeout_then_ok) 3 1 None [] =
      \<lparr>outcome = Inr venue_success, waits = [1000], attempts = 2\<rparr>"
    by (simp add: backoffMs_values)
  moreover have "makeRequest gateway_timeout_then_ok ''/trade'' POST (Some (requestData test_order)) 3 =
      request_loop (fetch_at gateway_timeout_then_ok) 3 1 None []"
    by (simp add: makeRequest_def requestData_def gateway_timeout_then_ok_def)
  ultimately show ?thesis using a n by simp
qed

lemma makeRequest_post_signed:
  "signing net = Inr sg \<Longrightarrow>
   makeRequest net endpoint POST (Some (requestData ord)) retries =
     request_loop (fetch_at net) retries 1 None []"
  by (simp add: makeRequest_def requestData_def)

lemma always_down_outcome:
  "outcome (makeRequest always_down ''/trade'' POST (Some (requestData ord)) 3) =
     Inl connection_refused"
proof -
  have "outcome (request_loop (fetch_at always_down) 3 1 None []) =
      attempt_result (fetch_at always_down 3) \<and>
    attempts (request_loop (fetch_at always_down) 3 1 None []) = 3"
    by (rule request_loop_reaches) (simp_all add: always_down_def transient_connection_refused)
  moreover have "signing always_down = Inr ''5f2a''" by (simp add: always_down_def)
  ultimately show ?thesis
    by (simp add: makeRequest_post_signed) (simp add: always_down_def attempt_result_def)
qed

lemma flaky_then_ok_outcome:
  "outcome (makeRequest flaky_then_ok ''/trade'' POST (Some (requestData ord)) 3) =
     Inr venue_success"
proof -
  have "\<not> transient (fetch_at flaky_then_ok 3)"
    by (simp add: flaky_then_ok_def transient_def attempt_result_def venue_success_def)
  then have "outcome (request_loop (fetch_at flaky_then_ok) 3 1 None []) =
      attempt_result (fetch_at flaky_then_ok 3) \<and>
    attempts (request_loop (fetch_at flaky_then_ok) 3 1 None []) = 3"
    by (intro request_loop_reaches) (simp_all add: flaky_then_ok_def transient_connection_refused)
  moreover have "signing flaky_then_ok = Inr ''5f2a''" by (simp add: flaky_then_ok_def)
  ultimately show ?thesis
    by (simp add: makeRequest_post_signed)
      (simp add: flaky_then_ok_def attempt_result_def venue_success_def)
qed

lemma rejecting_venue_outcome:
  "outcome (makeRequest rejecting_venue ''/trade'' POST (Some (requestData ord)) 3) =
     Inr venue_rejection"
proof -
  have "attempt_result (fetch_at rejecting_venue 1) = Inr venue_rejection"
    by (simp add: rejecting_venue_def attempt_result_def venue_rejection_def)
  then have "request_loop (fetch_at rejecting_venue) 3 1 None [] =
      \<lparr>outcome = Inr venue_rejection, waits = [], attempts = 1\<rparr>"
    using request_loop_return [of 1 3 "fetch_at rejecting_venue" venue_rejection None "[]"]
    by simp
  moreover have "signing rejecting_venue = Inr ''5f2a''" by (simp add: rejecting_venue_def)
  ultimately show ?thesis by (simp add: makeRequest_post_signed)
qed

text \<open>
  Claim C7. \<open>placeOrder\<close> never throws: for every order and every behaviour of the
  transport it returns an order response tagged success or error. A transport failure and
  a signing failure give an error response carrying the exception's message; a reply of
  the venue whose \<open>status\<close> is not \<open>success\<close> gives an error response carrying the
  venue's \<open>error\<close> (or \<open>Unknown error\<close>); a \<open>success\<close> reply gives a success response.
\<close>

theorem placeOrder_never_throws:
  "\<exists>r. placeOrder net ord = Inr r \<and>
     (status r = StatusSuccess \<or> status r = StatusError) \<and>
     (outcome (makeRequest net ''/trade'' POST (Some (requestData ord)) 3) = Inl e \<longrightarrow>
      r = \<lparr>status = StatusError, placed = None, order_id = None,
           order_error = Some (JString (message e))\<rparr>) \<and>
     (signing net = Inl signError \<longrightarrow>
      r = \<lparr>status = StatusError, placed = None, order_id = None,
           order_error =
             Some (JString (''Request signing failed: '' @ message signError))\<rparr>) \<and>
     (outcome (makeRequest net ''/trade'' POST (Some (requestData ord)) 3) = Inr response \<and>
      get_prop response ''status'' \<noteq> Some (JString ''success'') \<longrightarrow>
      r = \<lparr>status = StatusError, placed = None, order_id = None,
           order_error =
             Some (or_else (get_prop response ''error'') (JString ''Unknown error''))\<rparr>) \<and>
     (outcome (makeRequest net ''/trade'' POST (Some (requestData ord)) 3) = Inr response \<and>
      get_prop response ''status'' = Some (JString ''success'') \<longrightarrow>
      r = \<lparr>status = StatusSuccess, placed = Some ord, order_id = get_prop response ''id'',
           order_error = None\<rparr>)"
proof -
  have t: "truthy (requestData ord)" by (simp add: requestData_def)
  have s: "signing net = Inl signError \<longrightarrow>
      outcome (makeRequest net ''/trade'' POST (Some (requestData ord)) 3) =
        Inl (JsError False (''Request signing failed: '' @ message signError))"
    using t by (simp add: signing_error_not_retried)
  show ?thesis
  proof (cases "outcome (makeRequest net ''/trade'' POST (Some (requestData ord)) 3)")
    case (Inl x)
    with s show ?thesis by (auto simp: placeOrder_def try_catch_def)
  next
    case (Inr x)
    with s show ?thesis by (auto simp: placeOrder_def try_catch_def)
  qed
qed

theorem placeOrder_never_throws_witness:
  "outcome (makeRequest always_down ''/trade'' POST (Some (requestData test_order)) 3) =
     Inl connection_refused \<and>
   placeOrder always_down test_order =
     Inr \<lparr>status = StatusError, placed = None, order_id = None,
          order_error = Some (JString ''fetch failed'')\<rparr> \<and>
   signing broken_signer = Inl (JsError True ''Invalid key length'') \<and>
   placeOrder broken_signer test_order =
     Inr \<lparr>status = StatusError, placed = None, order_id = None,
          order_error = Some (JString ''Request signing failed: Invalid key length'')\<rparr> \<and>
   outcome (makeRequest rejecting_venue ''/trade'' POST (Some (requestData test_order)) 3) =
     Inr venue_rejection \<and>
   get_prop venue_rejection ''status'' \<noteq> Some (JString ''success'') \<and>
   placeOrder rejecting_venue test_order =
     Inr \<lparr>status = StatusError, placed = None, order_id = None,
          order_error = Some (JString ''Insufficient margin'')\<rparr> \<and>
   outcome (makeRequest flaky_then_ok ''/trade'' POST (Some (requestData test_order)) 3) =
     Inr venue_success \<and>
   get_prop venue_success ''status'' = Some (JString ''success'') \<and>
   placeOrder flaky_then_ok test_order =
     Inr \<lparr>status = StatusSuccess, placed = Some test_order,
          order_id = Some (JString ''42''), order_error = None\<rparr>"
proof -
  note down = always_down_outcome [of test_order]
  have sg: "signing broken_signer = Inl (JsError True ''Invalid key length'')"
    by (simp add: broken_signer_def)
  note rej = rejecting_venue_outcome [of test_order]
  have rej_status: "get_prop venue_rejection ''status'' \<noteq> Some (JString ''success'')"
    by (simp add: venue_rejection_def)
  have rej_error: "or_else (get_prop venue_rejection ''error'') (JString ''Unknown error'') =
      JString ''Insufficient margin''"
    by (simp add: venue_rejection_def or_else_def)
  note ok = flaky_then_ok_outcome [of test_order]
  have ok_status: "get_prop venue_success ''status'' = Some (JString ''success'')"
    and ok_id: "get_prop venue_success ''id'' = Some (JString ''42'')"
    by (simp_all add: venue_success_def)
  have a: "placeOrder always_down test_order =
      Inr \<lparr>status = StatusError, placed = None, order_id = None,
           order_error = Some (JString ''fetch failed'')\<rparr>"
    using placeOrder_never_throws [of always_down test_order connection_refused] down
    by (auto simp: connection_refused_def)
  have b: "placeOrder broken_signer test_order =
      Inr \<lparr>status = StatusError, placed = None, order_id = None,
           order_error = Some (JString ''Request signing failed: Invalid key length'')\<rparr>"
    using placeOrder_never_throws
      [of broken_signer test_order _ "JsError True ''Invalid key length''"] sg
    by auto
  have c: "placeOrder rejecting_venue test_order =
      Inr \<lparr>status = StatusError, placed = None, order_id = None,
           order_error = Some (JString ''Insufficient margin'')\<rparr>"
    using placeOrder_never_throws [of rejecting_venue test_order _ _ venue_rejection]
      rej rej_status rej_error
    by auto
  have d: "placeOrder flaky_then_ok test_order =
      Inr \<lparr>status = StatusSuccess, placed = Some test_order,
           order_id = Some (JString ''42''), order_error = None\<rparr>"
    using placeOrder_never_throws [of flaky_then_ok test_order _ _ venue_success]
      ok ok_status ok_id
    by auto
  from down a sg b rej rej_status c ok ok_status d show ?thesis by blast
qed


section \<open>The hedge controller\<close>

lemma num_gt_not_le: "num_gt a b \<Longrightarrow> \<not> num_le a b"
  by (cases a; cases b) (auto simp: num_gt_def num_le_def num_lt_def num_eq_def)

lemma getHedgePosition_calls:
  "snd (getHedgePosition ex cfg calls) = calls @ [GetPosition (pendlePerpTicker cfg)]"
  by (simp add: getHedgePosition_def Let_def split: sum.splits)

lemma getMarketData_calls:
  "snd (getMarketData ex cfg calls) = calls @ [GetMarketData (pendlePerpTicker cfg)]"
  by (simp add: getMarketData_def Let_def split: sum.splits)

lemma getMarketData_fallback:
  "getMarketData_reply ex (length (filter is_GetMarketData calls)) = Inl e \<Longrightarrow>
   fst (getMarketData ex cfg calls) =
     \<lparr>md_coin = pendlePerpTicker cfg, md_price = Num 0, fundingRate = Num 0\<rparr>"
  by (simp add: getMarketData_def Let_def)

lemma checkFundingRate_eq:
  "checkFundingRate ex cfg calls =
     (isFundingRateAcceptable (fundingRate (fst (getMarketData ex cfg calls)))
        (fundingTolerance cfg),
      calls @ [GetMarketData (pendlePerpTicker cfg)])"
  by (simp add: checkFundingRate_def Let_def split_beta getMarketData_calls)

lemma pending_decision_market_data:
  "pending_decision (ex\<lparr>getMarketData_reply := g\<rparr>) cfg lp = pending_decision ex cfg lp"
  by (simp add: pending_decision_def getHedgePosition_def Let_def
      determineHedgeAction_ignores_price
        [of _ _ _ "md_price (fst (getMarketData (ex\<lparr>getMarketData_reply := g\<rparr>) cfg
           [GetPosition (pendlePerpTicker cfg)]))"
          "md_price (fst (getMarketData ex cfg [GetPosition (pendlePerpTicker cfg)]))"])

lemma updateHedgePosition_try_eq:
  "updateHedgePosition_try ex cfg lp =
     (let ticker = pendlePerpTicker cfg;
          d = pending_decision ex cfg lp;
          calls2 = [GetPosition ticker, GetMarketData ticker]
      in case action d of
        NO_ACTION \<Rightarrow>
          (Inr \<lparr>success = True, result_action = NO_ACTION, details = Some NoRebalanceNeeded,
                error = None, timestamp = dateNow ex\<rparr>, calls2)
      | INCREASE_SHORT \<Rightarrow>
          if isFundingRateAcceptable (funding_check_rate ex cfg) (fundingTolerance cfg)
          then (order_outcome (dateNow ex) INCREASE_SHORT
                  (openShortPosition_reply ex (sizeChange d)) (IncreasedShortBy (sizeChange d))
                  ''Unknown error increasing short position'',
                calls2 @ [GetMarketData ticker, OpenShortPosition ticker (sizeChange d)])
          else (Inr \<lparr>success = False, result_action = INCREASE_SHORT,
                      details = Some FundingRateExceedsTolerance, error = None,
                      timestamp = dateNow ex\<rparr>, calls2 @ [GetMarketData ticker])
      | DECREASE_SHORT \<Rightarrow>
          (order_outcome (dateNow ex) DECREASE_SHORT
             (reduceShortPosition_reply ex (sizeChange d)) (DecreasedShortBy (sizeChange d))
             ''Unknown error decreasing short position'',
           calls2 @ [ReduceShortPosition ticker (sizeChange d)])
      | CLOSE_POSITIONS \<Rightarrow>
          (order_outcome (dateNow ex) CLOSE_POSITIONS (closePosition_reply ex)
             (ClosedAllPositionsFor ticker) ''Unknown error closing positions'',
           calls2 @ [ClosePosition ticker]))"
proof -
  obtain hp c1 where h: "getHedgePosition ex cfg [] = (hp, c1)" by (cases "getHedgePosition ex cfg []")
  then have c1: "c1 = [GetPosition (pendlePerpTicker cfg)]" and hp: "hp = fst (getHedgePosition ex cfg [])"
    using getHedgePosition_calls [of ex cfg "[]"] by simp_all
  obtain md c2 where m: "getMarketData ex cfg c1 = (md, c2)" by (cases "getMarketData ex cfg c1")
  then have c2: "c2 = [GetPosition (pendlePerpTicker cfg), GetMarketData (pendlePerpTicker cfg)]"
    and md: "md = fst (getMarketData ex cfg [GetPosition (pendlePerpTicker cfg)])"
    using getMarketData_calls [of ex cfg c1] c1 by simp_all
  show ?thesis
    unfolding updateHedgePosition_try_def Let_def h m prod.case checkFundingRate_eq c2
      pending_decision_def funding_check_rate_def hp [symmetric] md [symmetric]
    by (simp split: HedgingAction.splits)
qed


lemma update_no_action:
  assumes "action (pending_decision ex cfg lp) = NO_ACTION"
  shows "updateHedgePosition ex cfg lp =
    (Inr \<lparr>success = True, result_action = NO_ACTION, details = Some NoRebalanceNeeded,
          error = None, timestamp = dateNow ex\<rparr>,
     [GetPosition (pendlePerpTicker cfg), GetMarketData (pendlePerpTicker cfg)])"
  using assms
  by (simp add: updateHedgePosition_def updateHedgePosition_try_eq Let_def try_catch_def)

lemma update_increase_refused:
  assumes "action (pending_decision ex cfg lp) = INCREASE_SHORT"
    and "\<not> isFundingRateAcceptable (funding_check_rate ex cfg) (fundingTolerance cfg)"
  shows "updateHedgePosition ex cfg lp =
    (Inr \<lparr>success = False, result_action = INCREASE_SHORT,
          details = Some FundingRateExceedsTolerance, error = None, timestamp = dateNow ex\<rparr>,
     [GetPosition (pendlePerpTicker cfg), GetMarketData (pendlePerpTicker cfg),
      GetMarketData (pendlePerpTicker cfg)])"
  using assms
  by (simp add: updateHedgePosition_def updateHedgePosition_try_eq Let_def try_catch_def)

lemma update_increase_sent:
  assumes "action (pending_decision ex cfg lp) = INCREASE_SHORT"
    and "isFundingRateAcceptable (funding_check_rate ex cfg) (fundingTolerance cfg)"
  shows "updateHedgePosition ex cfg lp =
    (try_catch
       (order_outcome (dateNow ex) INCREASE_SHORT
          (openShortPosition_reply ex (sizeChange (pending_decision ex cfg lp)))
          (IncreasedShortBy (sizeChange (pending_decision ex cfg lp)))
          ''Unknown error increasing short position'')
       (\<lambda>e. Inr (catch_result ex e)),
     [GetPosition (pendlePerpTicker cfg), GetMarketData (pendlePerpTicker cfg),
      GetMarketData (pendlePerpTicker cfg),
      OpenShortPosition (pendlePerpTicker cfg) (sizeChange (pending_decision ex cfg lp))])"
  using assms
  by (simp add: updateHedgePosition_def updateHedgePosition_try_eq Let_def catch_result_def)

lemma update_decrease:
  assumes "action (pending_decision ex cfg lp) = DECREASE_SHORT"
  shows "updateHedgePosition ex cfg lp =
    (try_catch
       (order_outcome (dateNow ex) DECREASE_SHORT
          (reduceShortPosition_reply ex (sizeChange (pending_decision ex cfg lp)))
          (DecreasedShortBy (sizeChange (pending_decision ex cfg lp)))
          ''Unknown error decreasing short position'')
       (\<lambda>e. Inr (catch_result ex e)),
     [GetPosition (pendlePerpTicker cfg), GetMarketData (pendlePerpTicker cfg),
      ReduceShortPosition (pendlePerpTicker cfg) (sizeChange (pending_decision ex cfg lp))])"
  using assms
  by (simp add: updateHedgePosition_def updateHedgePosition_try_eq Let_def catch_result_def)

lemma update_close:
  assumes "action (pending_decision ex cfg lp) = CLOSE_POSITIONS"
  shows "updateHedgePosition ex cfg lp =
    (try_catch
       (order_outcome (dateNow ex) CLOSE_POSITIONS (closePosition_reply ex)
          (ClosedAllPositionsFor (pendlePerpTicker cfg)) ''Unknown error closing positions'')
       (\<lambda>e. Inr (catch_result ex e)),
     [GetPosition (pendlePerpTicker cfg), GetMarketData (pendlePerpTicker cfg),
      ClosePosition (pendlePerpTicker cfg)])"
  using assms
  by (simp add: updateHedgePosition_def updateHedgePosition_try_eq Let_def catch_result_def)

lemma valid_tolerance_accepts_zero:
  "validTradingParameters cfg \<Longrightarrow> isFundingRateAcceptable (Num 0) (fundingTolerance cfg)"
  by (cases "fundingTolerance cfg")
    (simp_all add: validTradingParameters_def isFundingRateAcceptable_def num_gt_def num_le_def
      num_lt_def num_eq_def)

lemma funding_check_rate_fallback:
  "getMarketData_reply ex 1 = Inl e \<Longrightarrow> funding_check_rate ex cfg = Num 0"
  by (simp add: funding_check_rate_def getMarketData_def Let_def)

lemma update_other_market_data:
  assumes "action (pending_decision ex cfg lp) = DECREASE_SHORT \<or>
           action (pending_decision ex cfg lp) = CLOSE_POSITIONS"
  shows "updateHedgePosition (ex\<lparr>getMarketData_reply := g\<rparr>) cfg lp = updateHedgePosition ex cfg lp"
  using assms
proof
  assume a: "action (pending_decision ex cfg lp) = DECREASE_SHORT"
  then have "action (pending_decision (ex\<lparr>getMarketData_reply := g\<rparr>) cfg lp) = DECREASE_SHORT"
    by (simp add: pending_decision_market_data)
  from update_decrease [OF this] update_decrease [OF a] show ?thesis
    by (simp add: pending_decision_market_data catch_result_def)
next
  assume a: "action (pending_decision ex cfg lp) = CLOSE_POSITIONS"
  then have "action (pending_decision (ex\<lparr>getMarketData_reply := g\<rparr>) cfg lp) = CLOSE_POSITIONS"
    by (simp add: pending_decision_market_data)
  from update_close [OF this] update_close [OF a] show ?thesis
    by (simp add: pending_decision_market_data catch_result_def)
qed

text \<open>
  Claim C3. When the decision of the tick is \<open>INCREASE_SHORT\<close> and the funding rate read
  by the funding check exceeds the tolerance in magnitude, \<open>updateHedgePosition\<close> returns a
  failed result and makes no order call. When the decision is \<open>DECREASE_SHORT\<close> or
  \<open>CLOSE_POSITIONS\<close>, the order call (\<open>reduceShortPosition\<close>, \<open>closePosition\<close>) is made,
  market data is fetched once only (for the price, before the decision; there is no funding
  check), and the whole outcome is the same whatever the market data calls return.
\<close>

theorem funding_gate_only_on_increase:
  "(action (pending_decision ex cfg lp) = INCREASE_SHORT \<and>
    num_gt (num_abs (funding_check_rate ex cfg)) (fundingTolerance cfg) \<longrightarrow>
    fst (updateHedgePosition ex cfg lp) =
      Inr \<lparr>success = False, result_action = INCREASE_SHORT,
           details = Some FundingRateExceedsTolerance, error = None,
           timestamp = dateNow ex\<rparr> \<and>
    order_calls (snd (updateHedgePosition ex cfg lp)) = []) \<and>
   (action (pending_decision ex cfg lp) = DECREASE_SHORT \<longrightarrow>
    order_calls (snd (updateHedgePosition ex cfg lp)) =
      [ReduceShortPosition (pendlePerpTicker cfg) (sizeChange (pending_decision ex cfg lp))] \<and>
    length (filter is_GetMarketData (snd (updateHedgePosition ex cfg lp))) = 1 \<and>
    updateHedgePosition (ex\<lparr>getMarketData_reply := g\<rparr>) cfg lp =
      updateHedgePosition ex cfg lp) \<and>
   (action (pending_decision ex cfg lp) = CLOSE_POSITIONS \<longrightarrow>
    order_calls (snd (updateHedgePosition ex cfg lp)) = [ClosePosition (pendlePerpTicker cfg)] \<and>
    length (filter is_GetMarketData (snd (updateHedgePosition ex cfg lp))) = 1 \<and>
    updateHedgePosition (ex\<lparr>getMarketData_reply := g\<rparr>) cfg lp =
      updateHedgePosition ex cfg lp)"
proof (intro conjI impI)
  assume a: "action (pending_decision ex cfg lp) = INCREASE_SHORT \<and>
    num_gt (num_abs (funding_check_rate ex cfg)) (fundingTolerance cfg)"
  then have "\<not> isFundingRateAcceptable (funding_check_rate ex cfg) (fundingTolerance cfg)"
    by (simp add: isFundingRateAcceptable_def num_gt_not_le)
  with a have u: "updateHedgePosition ex cfg lp =
    (Inr \<lparr>success = False, result_action = INCREASE_SHORT,
          details = Some FundingRateExceedsTolerance, error = None, timestamp = dateNow ex\<rparr>,
     [GetPosition (pendlePerpTicker cfg), GetMarketData (pendlePerpTicker cfg),
      GetMarketData (pendlePerpTicker cfg)])"
    by (simp add: update_increase_refused)
  show "fst (updateHedgePosition ex cfg lp) =
      Inr \<lparr>success = False, result_action = INCREASE_SHORT,
           details = Some FundingRateExceedsTolerance, error = None,
           timestamp = dateNow ex\<rparr>"
    by (simp add: u)
  show "order_calls (snd (updateHedgePosition ex cfg lp)) = []"
    by (simp add: u order_calls_def)
next
  assume a: "action (pending_decision ex cfg lp) = DECREASE_SHORT"
  note u = update_decrease [OF a]
  show "order_calls (snd (updateHedgePosition ex cfg lp)) =
      [ReduceShortPosition (pendlePerpTicker cfg) (sizeChange (pending_decision ex cfg lp))]"
    by (simp add: u order_calls_def)
  show "length (filter is_GetMarketData (snd (updateHedgePosition ex cfg lp))) = 1"
    by (simp add: u)
  show "updateHedgePosition (ex\<lparr>getMarketData_reply := g\<rparr>) cfg lp = updateHedgePosition ex cfg lp"
    using a by (simp add: update_other_market_data)
next
  assume a: "action (pending_decision ex cfg lp) = CLOSE_POSITIONS"
  note u = update_close [OF a]
  show "order_calls (snd (updateHedgePosition ex cfg lp)) = [ClosePosition (pendlePerpTicker cfg)]"
    by (simp add: u order_calls_def)
  show "length (filter is_GetMarketData (snd (updateHedgePosition ex cfg lp))) = 1"
    by (simp add: u)
  show "updateHedgePosition (ex\<lparr>getMarketData_reply := g\<rparr>) cfg lp = updateHedgePosition ex cfg lp"
    using a by (simp add: update_other_market_data)
qed

text \<open>
  Claim C10. The funding gate fails open. Under a configuration that passed the range
  check, whenever the market data call of the funding check throws, \<open>checkFundingRate\<close>
  returns true (the controller's \<open>getMarketData\<close> falls back to a funding rate of 0, which
  is within any positive tolerance), and a pending \<open>INCREASE_SHORT\<close> goes on to call
  \<open>openShortPosition\<close> with the decided size; the result is that of the order call.
\<close>

theorem funding_gate_fails_open:
  "(validTradingParameters cfg \<and>
    getMarketData_reply ex (length (filter is_GetMarketData calls)) = Inl e \<longrightarrow>
    fst (checkFundingRate ex cfg calls) = True) \<and>
   (validTradingParameters cfg \<and> action (pending_decision ex cfg lp) = INCREASE_SHORT \<and>
    getMarketData_reply ex 1 = Inl e \<longrightarrow>
    order_calls (snd (updateHedgePosition ex cfg lp)) =
      [OpenShortPosition (pendlePerpTicker cfg) (sizeChange (pending_decision ex cfg lp))] \<and>
    fst (updateHedgePosition ex cfg lp) =
      try_catch
        (order_outcome (dateNow ex) INCREASE_SHORT
           (openShortPosition_reply ex (sizeChange (pending_decision ex cfg lp)))
           (IncreasedShortBy (sizeChange (pending_decision ex cfg lp)))
           ''Unknown error increasing short position'')
        (\<lambda>e. Inr (catch_result ex e)))"
proof (intro conjI impI)
  assume a: "validTradingParameters cfg \<and>
    getMarketData_reply ex (length (filter is_GetMarketData calls)) = Inl e"
  then have "fundingRate (fst (getMarketData ex cfg calls)) = Num 0"
    by (simp add: getMarketData_fallback)
  with a show "fst (checkFundingRate ex cfg calls) = True"
    by (simp add: checkFundingRate_eq valid_tolerance_accepts_zero)
next
  assume a: "validTradingParameters cfg \<and> action (pending_decision ex cfg lp) = INCREASE_SHORT \<and>
    getMarketData_reply ex 1 = Inl e"
  then have "isFundingRateAcceptable (funding_check_rate ex cfg) (fundingTolerance cfg)"
    by (simp add: funding_check_rate_fallback valid_tolerance_accepts_zero)
  with a have u: "updateHedgePosition ex cfg lp =
    (try_catch
       (order_outcome (dateNow ex) INCREASE_SHORT
          (openShortPosition_reply ex (sizeChange (pending_decision ex cfg lp)))
          (IncreasedShortBy (sizeChange (pending_decision ex cfg lp)))
          ''Unknown error increasing short position'')
       (\<lambda>e. Inr (catch_result ex e)),
     [GetPosition (pendlePerpTicker cfg), GetMarketData (pendlePerpTicker cfg),
      GetMarketData (pendlePerpTicker cfg),
      OpenShortPosition (pendlePerpTicker cfg) (sizeChange (pending_decision ex cfg lp))])"
    by (simp add: update_increase_sent)
  show "order_calls (snd (updateHedgePosition ex cfg lp)) =
      [OpenShortPosition (pendlePerpTicker cfg) (sizeChange (pending_decision ex cfg lp))]"
    by (simp add: u order_calls_def)
  show "fst (updateHedgePosition ex cfg lp) =
      try_catch
        (order_outcome (dateNow ex) INCREASE_SHORT
           (openShortPosition_reply ex (sizeChange (pending_decision ex cfg lp)))
           (IncreasedShortBy (sizeChange (pending_decision ex cfg lp)))
           ''Unknown error increasing short position'')
        (\<lambda>e. Inr (catch_result ex e))"
    by (simp add: u)
qed

lemma order_result_props:
  "\<exists>r. try_catch (order_outcome (dateNow ex) act reply done txt) (\<lambda>e. Inr (catch_result ex e)) = Inr r \<and>
     timestamp r = dateNow ex \<and>
     (reply = Inl e \<longrightarrow> r = catch_result ex e) \<and>
     (reply = Inr resp \<and> status resp = StatusError \<longrightarrow>
      success r = False \<and> result_action r = act \<and> (\<exists>v. error r = Some v)) \<and>
     (reply = Inr resp \<and> status resp = StatusSuccess \<longrightarrow>
      success r = True \<and> result_action r = act \<and> error r = None)"
proof (cases reply)
  case (Inl x)
  then show ?thesis by (simp add: try_catch_def order_outcome_def catch_result_def)
next
  case (Inr x)
  then show ?thesis
    by (cases "status x") (auto simp: try_catch_def order_outcome_def)
qed

text \<open>
  Claim C8, as amended. For every decision and every behaviour of the client calls,
  throwing included, \<open>updateHedgePosition\<close> returns one result, stamped with the clock
  reading taken when the result is built, and never throws; it makes at most one order
  call. An exception of the order call becomes the result of the \<open>catch\<close> block
  (\<open>success: false\<close> with the exception's message as \<open>error\<close>), an order response of status
  error becomes \<open>success: false\<close> with an \<open>error\<close>, and a successful one becomes
  \<open>success: true\<close>. Without an order call the result is either the successful \<open>NO_ACTION\<close>
  or the refusal of the funding gate, which is \<open>success: false\<close> with \<open>details\<close> and no
  \<open>error\<close>.
\<close>

theorem updateHedgePosition_always_returns:
  "\<exists>r. fst (updateHedgePosition ex cfg lp) = Inr r \<and> timestamp r = dateNow ex \<and>
     length (order_calls (snd (updateHedgePosition ex cfg lp))) \<le> 1 \<and>
     (sent_order_reply ex cfg lp = Some (Inl e) \<longrightarrow> r = catch_result ex e) \<and>
     (sent_order_reply ex cfg lp = Some (Inr resp) \<and> status resp = StatusError \<longrightarrow>
      success r = False \<and> result_action r = action (pending_decision ex cfg lp) \<and>
      (\<exists>v. error r = Some v)) \<and>
     (sent_order_reply ex cfg lp = Some (Inr resp) \<and> status resp = StatusSuccess \<longrightarrow>
      success r = True \<and> result_action r = action (pending_decision ex cfg lp) \<and>
      error r = None) \<and>
     (sent_order_reply ex cfg lp = None \<longrightarrow>
      r = \<lparr>success = True, result_action = NO_ACTION, details = Some NoRebalanceNeeded,
           error = None, timestamp = dateNow ex\<rparr> \<or>
      r = \<lparr>success = False, result_action = INCREASE_SHORT,
           details = Some FundingRateExceedsTolerance, error = None,
           timestamp = dateNow ex\<rparr>)"
proof (cases "action (pending_decision ex cfg lp)")
  case NO_ACTION
  note u = update_no_action [OF NO_ACTION]
  show ?thesis by (simp add: u sent_order_reply_def order_calls_def)
next
  case INCREASE_SHORT
  show ?thesis
  proof (cases "isFundingRateAcceptable (funding_check_rate ex cfg) (fundingTolerance cfg)")
    case False
    note u = update_increase_refused [OF INCREASE_SHORT False]
    show ?thesis by (simp add: u sent_order_reply_def order_calls_def)
  next
    case True
    note u = update_increase_sent [OF INCREASE_SHORT True]
    have s: "sent_order_reply ex cfg lp =
        Some (openShortPosition_reply ex (sizeChange (pending_decision ex cfg lp)))"
      and n: "length (order_calls (snd (updateHedgePosition ex cfg lp))) \<le> 1"
      by (simp_all add: u sent_order_reply_def order_calls_def)
    from order_result_props
      [of ex INCREASE_SHORT "openShortPosition_reply ex (sizeChange (pending_decision ex cfg lp))"
        "IncreasedShortBy (sizeChange (pending_decision ex cfg lp))"
        "''Unknown error increasing short position''" e resp]
    show ?thesis unfolding s INCREASE_SHORT using n by (simp add: u)
  qed
next
  case DECREASE_SHORT
  note u = update_decrease [OF DECREASE_SHORT]
  have s: "sent_order_reply ex cfg lp =
      Some (reduceShortPosition_reply ex (sizeChange (pending_decision ex cfg lp)))"
    and n: "length (order_calls (snd (updateHedgePosition ex cfg lp))) \<le> 1"
    by (simp_all add: u sent_order_reply_def order_calls_def)
  from order_result_props
    [of ex DECREASE_SHORT "reduceShortPosition_reply ex (sizeChange (pending_decision ex cfg lp))"
      "DecreasedShortBy (sizeChange (pending_decision ex cfg lp))"
      "''Unknown error decreasing short position''" e resp]
  show ?thesis unfolding s DECREASE_SHORT using n by (simp add: u)
next
  case CLOSE_POSITIONS
  note u = update_close [OF CLOSE_POSITIONS]
  have s: "sent_order_reply ex cfg lp = Some (closePosition_reply ex)"
    and n: "length (order_calls (snd (updateHedgePosition ex cfg lp))) \<le> 1"
    by (simp_all add: u sent_order_reply_def order_calls_def)
  from order_result_props
    [of ex CLOSE_POSITIONS "closePosition_reply ex"
      "ClosedAllPositionsFor (pendlePerpTicker cfg)" "''Unknown error closing positions''" e resp]
  show ?thesis unfolding s CLOSE_POSITIONS using n by (simp add: u)
qed


lemmas tick_defs =
  pending_decision_def funding_check_rate_def getHedgePosition_def getMarketData_def
  determineHedgeAction_def calculateRequiredHedgeSize_def num_gt_def Let_def

lemmas fixture_defs =
  costly_funding_def market_data_down_def position_read_down_def orders_failing_def
  test_config_def test_lpPosition_def test_hedgePosition_def highExposureLP_def
  lowExposureLP_def emptyLP_def

lemma costly_funding_decisions:
  "pending_decision costly_funding test_config highExposureLP =
     \<lparr>action = INCREASE_SHORT, sizeChange = Num 20\<rparr>"
  "pending_decision costly_funding test_config lowExposureLP =
     \<lparr>action = DECREASE_SHORT, sizeChange = Num 20\<rparr>"
  "pending_decision costly_funding test_config emptyLP =
     \<lparr>action = CLOSE_POSITIONS, sizeChange = Num 100\<rparr>"
  by (simp_all add: tick_defs fixture_defs num_sub_def num_div_def num_lt_def num_eq_def
      signed_zero_def signed_inf_def round_to_double_values)

lemma other_decisions:
  "pending_decision market_data_down test_config highExposureLP =
     \<lparr>action = INCREASE_SHORT, sizeChange = Num 20\<rparr>"
  "pending_decision orders_failing test_config lowExposureLP =
     \<lparr>action = DECREASE_SHORT, sizeChange = Num 20\<rparr>"
  "pending_decision orders_failing test_config emptyLP =
     \<lparr>action = CLOSE_POSITIONS, sizeChange = Num 100\<rparr>"
  "pending_decision position_read_down test_config test_lpPosition =
     \<lparr>action = INCREASE_SHORT, sizeChange = Num 100\<rparr>"
  by (simp_all add: tick_defs fixture_defs num_sub_def num_div_def num_lt_def num_eq_def
      signed_zero_def signed_inf_def round_to_double_values)

lemma costly_funding_rate:
  "funding_check_rate costly_funding test_config = round_to_double (6 / 1000)"
  by (simp add: tick_defs fixture_defs)

lemma test_config_valid: "validTradingParameters test_config"
  by (simp add: validTradingParameters_def test_config_def num_gt_def num_lt_def
      round_to_double_values)

theorem funding_gate_only_on_increase_witness:
  "action (pending_decision costly_funding test_config highExposureLP) = INCREASE_SHORT \<and>
   funding_check_rate costly_funding test_config = round_to_double (6 / 1000) \<and>
   fundingTolerance test_config = round_to_double (5 / 1000) \<and>
   num_gt (num_abs (funding_check_rate costly_funding test_config)) (fundingTolerance test_config) \<and>
   fst (updateHedgePosition costly_funding test_config highExposureLP) =
     Inr \<lparr>success = False, result_action = INCREASE_SHORT,
          details = Some FundingRateExceedsTolerance, error = None,
          timestamp = 1700000000000\<rparr> \<and>
   order_calls (snd (updateHedgePosition costly_funding test_config highExposureLP)) = [] \<and>
   action (pending_decision costly_funding test_config lowExposureLP) = DECREASE_SHORT \<and>
   order_calls (snd (updateHedgePosition costly_funding test_config lowExposureLP)) =
     [ReduceShortPosition ''PENDLE-PERP'' (Num 20)] \<and>
   action (pending_decision costly_funding test_config emptyLP) = CLOSE_POSITIONS \<and>
   order_calls (snd (updateHedgePosition costly_funding test_config emptyLP)) =
     [ClosePosition ''PENDLE-PERP'']"
proof -
  have tol: "fundingTolerance test_config = round_to_double (5 / 1000)"
    and tick: "pendlePerpTicker test_config = ''PENDLE-PERP''"
    and now: "dateNow costly_funding = 1700000000000"
    by (simp_all add: test_config_def costly_funding_def)
  have gt: "num_gt (num_abs (funding_check_rate costly_funding test_config))
      (fundingTolerance test_config)"
    by (simp add: costly_funding_rate tol num_gt_def num_lt_def round_to_double_values)
  have a: "action (pending_decision costly_funding test_config highExposureLP) = INCREASE_SHORT"
    and b: "action (pending_decision costly_funding test_config lowExposureLP) = DECREASE_SHORT"
    and c: "action (pending_decision costly_funding test_config emptyLP) = CLOSE_POSITIONS"
    by (simp_all add: costly_funding_decisions)
  from funding_gate_only_on_increase [of costly_funding test_config highExposureLP] a gt
  have 1: "fst (updateHedgePosition costly_funding test_config highExposureLP) =
     Inr \<lparr>success = False, result_action = INCREASE_SHORT,
          details = Some FundingRateExceedsTolerance, error = None,
          timestamp = 1700000000000\<rparr> \<and>
     order_calls (snd (updateHedgePosition costly_funding test_config highExposureLP)) = []"
    by (simp add: now)
  from funding_gate_only_on_increase [of costly_funding test_config lowExposureLP] b
  have 2: "order_calls (snd (updateHedgePosition costly_funding test_config lowExposureLP)) =
     [ReduceShortPosition ''PENDLE-PERP'' (Num 20)]"
    by (simp add: costly_funding_decisions tick)
  from funding_gate_only_on_increase [of costly_funding test_config emptyLP] c
  have 3: "order_calls (snd (updateHedgePosition costly_funding test_config emptyLP)) =
     [ClosePosition ''PENDLE-PERP'']"
    by (simp add: tick)
  from a b c gt tol costly_funding_rate 1 2 3 show ?thesis by blast
qed

theorem funding_gate_fails_open_witness:
  "validTradingParameters test_config \<and>
   getMarketData_reply market_data_down 1 = Inl connection_refused \<and>
   fst (checkFundingRate market_data_down test_config
     [GetPosition ''PENDLE-PERP'', GetMarketData ''PENDLE-PERP'']) = True \<and>
   action (pending_decision market_data_down test_config highExposureLP) = INCREASE_SHORT \<and>
   order_calls (snd (updateHedgePosition market_data_down test_config highExposureLP)) =
     [OpenShortPosition ''PENDLE-PERP'' (Num 20)]"
proof -
  have tick: "pendlePerpTicker test_config = ''PENDLE-PERP''" by (simp add: test_config_def)
  have down: "getMarketData_reply market_data_down 1 = Inl connection_refused"
    and down': "getMarketData_reply market_data_down
      (length (filter is_GetMarketData [GetPosition ''PENDLE-PERP'', GetMarketData ''PENDLE-PERP'']))
        = Inl connection_refused"
    by (simp_all add: market_data_down_def)
  have a: "action (pending_decision market_data_down test_config highExposureLP) = INCREASE_SHORT"
    by (simp add: other_decisions)
  from funding_gate_fails_open
    [of test_config market_data_down
      "[GetPosition ''PENDLE-PERP'', GetMarketData ''PENDLE-PERP'']" connection_refused
      highExposureLP]
    test_config_valid down down' a
  have "fst (checkFundingRate market_data_down test_config
      [GetPosition ''PENDLE-PERP'', GetMarketData ''PENDLE-PERP'']) = True \<and>
    order_calls (snd (updateHedgePosition market_data_down test_config highExposureLP)) =
      [OpenShortPosition ''PENDLE-PERP'' (Num 20)]"
    by (simp add: other_decisions tick)
  with test_config_valid down a show ?thesis by blast
qed

lemma orders_failing_replies:
  "sent_order_reply orders_failing test_config emptyLP = Some (Inl connection_refused)"
  "sent_order_reply orders_failing test_config lowExposureLP = Some (Inr order_rejected)"
proof -
  have c: "action (pending_decision orders_failing test_config emptyLP) = CLOSE_POSITIONS"
    and d: "action (pending_decision orders_failing test_config lowExposureLP) = DECREASE_SHORT"
    by (simp_all add: other_decisions)
  have "sent_order_reply orders_failing test_config emptyLP =
      Some (closePosition_reply orders_failing)"
    by (simp add: sent_order_reply_def order_calls_def update_close [OF c])
  then show "sent_order_reply orders_failing test_config emptyLP = Some (Inl connection_refused)"
    by (simp add: orders_failing_def)
  have "sent_order_reply orders_failing test_config lowExposureLP =
      Some (reduceShortPosition_reply orders_failing
        (sizeChange (pending_decision orders_failing test_config lowExposureLP)))"
    by (simp add: sent_order_reply_def order_calls_def update_decrease [OF d])
  then show "sent_order_reply orders_failing test_config lowExposureLP = Some (Inr order_rejected)"
    by (simp add: orders_failing_def)
qed

theorem updateHedgePosition_always_returns_witness:
  "sent_order_reply orders_failing test_config emptyLP = Some (Inl connection_refused) \<and>
   fst (updateHedgePosition orders_failing test_config emptyLP) =
     Inr \<lparr>success = False, result_action = NO_ACTION, details = None,
          error = Some (JString ''fetch failed''), timestamp = 1700000000000\<rparr> \<and>
   sent_order_reply orders_failing test_config lowExposureLP = Some (Inr order_rejected) \<and>
   status order_rejected = StatusError \<and>
   (\<exists>r. fst (updateHedgePosition orders_failing test_config lowExposureLP) = Inr r \<and>
        timestamp r = 1700000000000 \<and> success r = False \<and>
        result_action r = DECREASE_SHORT \<and> (\<exists>v. error r = Some v))"
proof -
  have now: "dateNow orders_failing = 1700000000000"
    by (simp add: orders_failing_def costly_funding_def)
  have st: "status order_rejected = StatusError" by (simp add: order_rejected_def)
  have cr: "catch_result orders_failing connection_refused =
      \<lparr>success = False, result_action = NO_ACTION, details = None,
       error = Some (JString ''fetch failed''), timestamp = 1700000000000\<rparr>"
    by (simp add: catch_result_def now connection_refused_def)
  from updateHedgePosition_always_returns
    [of orders_failing test_config emptyLP connection_refused]
    orders_failing_replies(1)
  have 1: "fst (updateHedgePosition orders_failing test_config emptyLP) =
     Inr \<lparr>success = False, result_action = NO_ACTION, details = None,
          error = Some (JString ''fetch failed''), timestamp = 1700000000000\<rparr>"
    by (auto simp: cr)
  from updateHedgePosition_always_returns
    [of orders_failing test_config lowExposureLP _ order_rejected]
    orders_failing_replies(2) st
  have 2: "\<exists>r. fst (updateHedgePosition orders_failing test_config lowExposureLP) = Inr r \<and>
        timestamp r = 1700000000000 \<and> success r = False \<and>
        result_action r = DECREASE_SHORT \<and> (\<exists>v. error r = Some v)"
    by (auto simp: now other_decisions)
  from orders_failing_replies st 1 2 show ?thesis by blast
qed

text \<open>
  Claim C8 as stated fails in its last part, "every failure becomes a result with
  \<open>success: false\<close> and an error". The refusal of the funding gate (funding rate 0.006
  against a tolerance of 0.005) is a failed result that carries no \<open>error\<close>; and an exception
  of \<open>client.getPosition\<close> is absorbed by \<open>getHedgePosition\<close>, which reports no hedge, so
  that the tick shorts the full exposure and reports \<open>success: true\<close>.
\<close>

theorem updateHedgePosition_failure_counterexample:
  "fst (updateHedgePosition costly_funding test_config highExposureLP) =
     Inr \<lparr>success = False, result_action = INCREASE_SHORT,
          details = Some FundingRateExceedsTolerance, error = None,
          timestamp = 1700000000000\<rparr> \<and>
   getPosition_reply position_read_down = Inl connection_refused \<and>
   updateHedgePosition position_read_down test_config test_lpPosition =
     (Inr \<lparr>success = True, result_action = INCREASE_SHORT,
           details = Some (IncreasedShortBy (Num 100)), error = None,
           timestamp = 1700000000000\<rparr>,
      [GetPosition ''PENDLE-PERP'', GetMarketData ''PENDLE-PERP'', GetMarketData ''PENDLE-PERP'',
       OpenShortPosition ''PENDLE-PERP'' (Num 100)])"
proof -
  have a: "action (pending_decision costly_funding test_config highExposureLP) = INCREASE_SHORT"
    by (simp add: costly_funding_decisions)
  have tol: "fundingTolerance test_config = round_to_double (5 / 1000)"
    by (simp add: test_config_def)
  have "\<not> isFundingRateAcceptable (funding_check_rate costly_funding test_config)
      (fundingTolerance test_config)"
    unfolding costly_funding_rate tol
    by (simp add: isFundingRateAcceptable_def num_le_def num_lt_def num_eq_def
        round_to_double_values)
  from update_increase_refused [OF a this]
  have 1: "fst (updateHedgePosition costly_funding test_config highExposureLP) =
     Inr \<lparr>success = False, result_action = INCREASE_SHORT,
          details = Some FundingRateExceedsTolerance, error = None,
          timestamp = 1700000000000\<rparr>"
    by (simp add: costly_funding_def)
  have b: "action (pending_decision position_read_down test_config test_lpPosition) =
      INCREASE_SHORT"
    by (simp add: other_decisions)
  have rate0: "funding_check_rate position_read_down test_config = Num 0"
    by (simp add: funding_check_rate_def getMarketData_def position_read_down_def Let_def)
  have "isFundingRateAcceptable (funding_check_rate position_read_down test_config)
      (fundingTolerance test_config)"
    unfolding rate0 tol
    by (simp add: isFundingRateAcceptable_def num_le_def num_lt_def round_to_double_values)
  note sent = update_increase_sent [OF b this]
  have size: "sizeChange (pending_decision position_read_down test_config test_lpPosition) = Num 100"
    by (simp add: other_decisions)
  have facts:
    "openShortPosition_reply position_read_down (Num 100) = Inr order_accepted"
    "dateNow position_read_down = 1700000000000"
    "pendlePerpTicker test_config = ''PENDLE-PERP''"
    "status order_accepted = StatusSuccess"
    by (simp_all add: position_read_down_def costly_funding_def
        test_config_def order_accepted_def)
  have 2: "updateHedgePosition position_read_down test_config test_lpPosition =
     (Inr \<lparr>success = True, result_action = INCREASE_SHORT,
           details = Some (IncreasedShortBy (Num 100)), error = None,
           timestamp = 1700000000000\<rparr>,
      [GetPosition ''PENDLE-PERP'', GetMarketData ''PENDLE-PERP'', GetMarketData ''PENDLE-PERP'',
       OpenShortPosition ''PENDLE-PERP'' (Num 100)])"
    unfolding sent size facts by (simp add: try_catch_def order_outcome_def facts)
  have 3: "getPosition_reply position_read_down = Inl connection_refused"
    by (simp add: position_read_down_def)
  from 1 2 3 show ?thesis by blast
qed

end
